theory Spec2Isabelle
  imports Main "HOL-Library.Word"
begin

unbundle bit_operations_syntax

section \<open>The pipeline cache of ncnn (src/pipelinecache.cpp)\<close>

text \<open>
  A shallow embedding of \<^verbatim>\<open>PipelineCache\<close>: the two hash functions, the digest that keys
  the cache, the selection of the shader variant, the construction of a pipeline with its
  unwinding on failure, the two \<^verbatim>\<open>get_pipeline\<close> entry points and \<^verbatim>\<open>clear\<close>.

  The Vulkan device (\<^verbatim>\<open>gpu.h\<close>, \<^verbatim>\<open>gpu.cpp\<close>) and the class declaration
  (\<^verbatim>\<open>pipelinecache.h\<close>) are not part of the source at hand. The device is a parameter of
  the model; the calls made on it are recorded in a trace.
\<close>

subsection \<open>Machine types\<close>

type_synonym u8 = "8 word"
type_synonym u32 = "32 word"

text \<open>
  A Vulkan handle (\<^verbatim>\<open>VkShaderModule\<close>, \<^verbatim>\<open>VkPipeline\<close>, ...) is an opaque number;
  \<open>0\<close> is the null handle, which is what the tests \<^verbatim>\<open>if (cc.pipeline)\<close> and
  \<^verbatim>\<open>if (!shader_module)\<close> of the source look at.
\<close>

type_synonym handle = nat

text \<open>
  \<^verbatim>\<open>vk_specialization_type\<close> is a four-byte union of \<^verbatim>\<open>int\<close>, \<^verbatim>\<open>float\<close> and
  \<^verbatim>\<open>uint32_t\<close>; the cache only ever looks at its 32 bits.
\<close>

type_synonym vk_specialization_type = u32

subsection \<open>The hash functions\<close>

text \<open>
  \<^verbatim>\<open>murmur3_32(const uint32_t* data, int size)\<close>: the pointer and its size are the list
  and its length; the loop \<^verbatim>\<open>for (i = 0; i < size; i++) { k = *data++; ... }\<close> walks the
  list with \<open>h\<close> as the loop variable. All arithmetic is on \<^verbatim>\<open>uint32_t\<close>, hence on
  \<^typ>\<open>32 word\<close>.
\<close>

fun murmur3_32_loop :: "u32 list \<Rightarrow> u32 \<Rightarrow> u32" where
  "murmur3_32_loop [] h = h"
| "murmur3_32_loop (k0 # data) h =
     (let k1 = k0 * 0xcc9e2d51;
          k2 = push_bit 15 k1 OR drop_bit (32 - 15) k1;
          k3 = k2 * 0x1b873593;
          h1 = h XOR k3;
          h2 = push_bit 13 h1 OR drop_bit (32 - 13) h1;
          h3 = (h2 * 5) + 0xe6546b64
      in murmur3_32_loop data h3)"

text \<open>
  \<^verbatim>\<open>h ^= size * 4\<close> multiplies an \<^verbatim>\<open>int\<close> and converts the product to
  \<^verbatim>\<open>uint32_t\<close>, which is \<open>of_nat\<close> (reduction modulo \<open>2 ^ 32\<close>) as long as the product
  fits an \<^verbatim>\<open>int\<close>.
\<close>

definition murmur3_32 :: "u32 list \<Rightarrow> u32" where
  "murmur3_32 data =
     (let h0 = murmur3_32_loop data 0;
          h1 = h0 XOR of_nat (length data * 4);
          h2 = h1 XOR drop_bit 16 h1;
          h3 = h2 * 0x85ebca6b;
          h4 = h3 XOR drop_bit 13 h3;
          h5 = h4 * 0xc2b2ae35;
          h6 = h5 XOR drop_bit 16 h5
      in h6)"

fun fnv1a_32_loop :: "u8 list \<Rightarrow> u32 \<Rightarrow> u32" where
  "fnv1a_32_loop [] h = h"
| "fnv1a_32_loop (b # data) h =
     (let h1 = h XOR ucast b;
          h2 = h1 * 0x01000193
      in fnv1a_32_loop data h2)"

definition fnv1a_32 :: "u8 list \<Rightarrow> u32" where
  "fnv1a_32 data = fnv1a_32_loop data 0x811c9dc5"

subsection \<open>The reference algorithms, on natural numbers\<close>

text \<open>
  The published algorithms, written from their descriptions with every operation reduced
  modulo \<open>2 ^ 32\<close> by hand: 32-bit FNV-1a (offset basis \<open>0x811c9dc5\<close>, prime
  \<open>0x01000193\<close>), and the word loop of Murmur3-32 with seed \<open>0\<close>.
\<close>

definition rotl32 :: "nat \<Rightarrow> nat \<Rightarrow> nat" where
  "rotl32 x r = (x * 2 ^ r) mod 2 ^ 32 + x div 2 ^ (32 - r)"

definition fnv1a_reference :: "nat list \<Rightarrow> nat" where
  "fnv1a_reference bytes =
     foldl (\<lambda>h b. ((h XOR b) * 0x01000193) mod 2 ^ 32) 0x811c9dc5 bytes"

definition murmur3_scramble :: "nat \<Rightarrow> nat" where
  "murmur3_scramble k = (rotl32 ((k * 0xcc9e2d51) mod 2 ^ 32) 15 * 0x1b873593) mod 2 ^ 32"

definition murmur3_mix :: "nat \<Rightarrow> nat \<Rightarrow> nat" where
  "murmur3_mix h k = (5 * rotl32 (h XOR murmur3_scramble k) 13 + 0xe6546b64) mod 2 ^ 32"

definition murmur3_fmix :: "nat \<Rightarrow> nat" where
  "murmur3_fmix h =
     (let a = h XOR (h div 2 ^ 16);
          b = (a * 0x85ebca6b) mod 2 ^ 32;
          c = b XOR (b div 2 ^ 13);
          d = (c * 0xc2b2ae35) mod 2 ^ 32
      in d XOR (d div 2 ^ 16))"

definition murmur3_reference :: "nat list \<Rightarrow> nat" where
  "murmur3_reference ws =
     murmur3_fmix (foldl murmur3_mix 0 ws XOR ((4 * length ws) mod 2 ^ 32))"

subsection \<open>Options, device capabilities and shader signatures\<close>

text \<open>
  The fields of \<^verbatim>\<open>Option\<close>, of \<^verbatim>\<open>GpuInfo\<close> (\<^verbatim>\<open>vkdev->info\<close>) and of
  \<^verbatim>\<open>ShaderInfo\<close> that the cache reads. The records are extensible, the other fields
  of the three classes play no role here.
\<close>

record Option =
  use_image_storage :: bool
  use_fp16_packed :: bool
  use_fp16_storage :: bool
  use_fp16_arithmetic :: bool
  use_int8_storage :: bool
  use_int8_arithmetic :: bool

record GpuInfo =
  bug_layout_binding_id_alias :: bool
  support_fp16_packed :: bool
  support_fp16_storage :: bool
  support_fp16_arithmetic :: bool
  support_VK_KHR_descriptor_update_template :: bool

record ShaderInfo =
  specialization_count :: int
  binding_count :: int
  push_constant_count :: int
  binding_types :: "int list"

subsection \<open>The digest\<close>

text \<open>
  Modelled from the spec: the declaration of \<^verbatim>\<open>pipeline_cache_digest\<close> and its
  \<^verbatim>\<open>operator==\<close> are in \<^verbatim>\<open>pipelinecache.h\<close>, which is missing. The fields are the ones
  the constructor assigns; \<^verbatim>\<open>opt_local_size_bits\<close> is an array of four bytes (the spec's
  packed option and local-size bits); two digests are equal when all their fields are, which
  is the equality of the record.
\<close>

record pipeline_cache_digest =
  shader_type_index :: int
  opt_local_size_bits :: "u8 list"
  specializations_murmur3 :: u32
  specializations_fnv1a :: u32

text \<open>
  \<^verbatim>\<open>(const uint8_t*)specializations.data()\<close> reads each four-byte value as its bytes
  in memory, lowest byte first on the little-endian machines ncnn runs on.
\<close>

definition specialization_bytes :: "vk_specialization_type list \<Rightarrow> u8 list" where
  "specialization_bytes specializations =
     concat (map (\<lambda>w. [ucast w, ucast (drop_bit 8 w), ucast (drop_bit 16 w), ucast (drop_bit 24 w)])
       specializations)"

definition pipeline_cache_digest_init ::
  "int \<Rightarrow> Option \<Rightarrow> vk_specialization_type list \<Rightarrow> u32 \<Rightarrow> u32 \<Rightarrow> u32 \<Rightarrow> pipeline_cache_digest" where
  "pipeline_cache_digest_init index opt specializations local_size_x local_size_y local_size_z =
     \<lparr> shader_type_index = index,
       opt_local_size_bits =
         [ push_bit 7 (of_bool (use_image_storage opt))
             OR push_bit 6 (of_bool (use_fp16_packed opt))
             OR push_bit 5 (of_bool (use_fp16_storage opt))
             OR push_bit 4 (of_bool (use_fp16_arithmetic opt))
             OR push_bit 3 (of_bool (use_int8_storage opt))
             OR push_bit 2 (of_bool (use_int8_arithmetic opt)),
           ucast local_size_x,
           ucast local_size_y,
           ucast local_size_z ],
       specializations_murmur3 = murmur3_32 specializations,
       specializations_fnv1a = fnv1a_32 (specialization_bytes specializations) \<rparr>"

subsection \<open>The device and the trace of its calls\<close>

text \<open>
  Modelled from the spec: \<^verbatim>\<open>VulkanDevice\<close> (\<^verbatim>\<open>gpu.cpp\<close>) is missing. Each create
  primitive returns a handle or a failure signal. A created handle may be null (no object was
  needed); a failed create leaves the variable it was to write as it was. What a primitive
  answers may depend on its arguments and on every call made before, so the device is a
  record of functions of the trace so far.
\<close>

datatype vk_object =
  ShaderModule | DescriptorSetLayout | PipelineLayout | Pipeline | DescriptorUpdateTemplate

datatype create_result = Failed | Created handle

datatype vk_call = Create vk_object create_result | Destroy vk_object handle

record VulkanDevice =
  info :: GpuInfo
  vkdev_compile_shader_module :: "vk_call list \<Rightarrow> u32 list \<Rightarrow> u32 \<Rightarrow> u32 \<Rightarrow> u32 \<Rightarrow> create_result"
  vkdev_create_shader_module :: "vk_call list \<Rightarrow> int \<Rightarrow> u32 \<Rightarrow> u32 \<Rightarrow> u32 \<Rightarrow> create_result"
  vkdev_create_descriptorset_layout :: "vk_call list \<Rightarrow> int \<Rightarrow> int list \<Rightarrow> create_result"
  vkdev_create_pipeline_layout :: "vk_call list \<Rightarrow> int \<Rightarrow> handle \<Rightarrow> create_result"
  vkdev_create_pipeline ::
    "vk_call list \<Rightarrow> handle \<Rightarrow> handle \<Rightarrow> vk_specialization_type list \<Rightarrow> create_result"
  vkdev_create_descriptor_update_template ::
    "vk_call list \<Rightarrow> int \<Rightarrow> int list \<Rightarrow> handle \<Rightarrow> handle \<Rightarrow> create_result"

text \<open>
  The \<^verbatim>\<open>int\<close> a create primitive returns (\<open>0\<close> is success), the value of the variable its
  last argument points to after the call, and the handle a shader-module call returns (null
  on failure).
\<close>

fun ret_of :: "create_result \<Rightarrow> int" where
  "ret_of Failed = -1"
| "ret_of (Created h) = 0"

fun written :: "create_result \<Rightarrow> handle \<Rightarrow> handle" where
  "written Failed old = old"
| "written (Created h) old = h"

fun handle_of :: "create_result \<Rightarrow> handle" where
  "handle_of Failed = 0"
| "handle_of (Created h) = h"

text \<open>
  The free functions the cache calls, and the build option that selects one of the two
  bodies of \<^verbatim>\<open>create_shader_module\<close>. \<^verbatim>\<open>resolve_shader_info\<close> fills the
  \<^verbatim>\<open>ShaderInfo\<close> it is given and returns an \<^verbatim>\<open>int\<close>; \<^verbatim>\<open>compile_spirv_module\<close> fills
  a vector of words and returns an \<^verbatim>\<open>int\<close>.
\<close>

record externals =
  NCNN_VULKAN_ONLINE_SPIRV :: bool
  compile_spirv_module :: "int \<Rightarrow> Option \<Rightarrow> int \<times> u32 list"
  resolve_shader_info :: "u32 list \<Rightarrow> ShaderInfo \<Rightarrow> int \<times> ShaderInfo"
  get_shader_info :: "int \<Rightarrow> ShaderInfo"

subsection \<open>The cache and the variables of the caller\<close>

text \<open>
  A stored bundle and the two vectors of the cache, with the fields that the source reads and
  writes (their declarations are in the missing \<^verbatim>\<open>pipelinecache.h\<close>).
\<close>

record pipeline_cache_artifact =
  shader_module :: handle
  descriptorset_layout :: handle
  pipeline_layout :: handle
  pipeline :: handle
  descriptor_update_template :: handle
  shader_info :: ShaderInfo

record PipelineCache =
  cache_digests :: "pipeline_cache_digest list"
  cache_artifacts :: "pipeline_cache_artifact list"

text \<open>
  The six variables of the caller that \<^verbatim>\<open>get_pipeline\<close> writes through its pointer and
  reference parameters (taken to be six distinct variables).
\<close>

record out_params =
  out_shader_module :: handle
  out_descriptorset_layout :: handle
  out_pipeline_layout :: handle
  out_pipeline :: handle
  out_descriptor_update_template :: handle
  out_shader_info :: ShaderInfo

subsection \<open>\<^verbatim>\<open>create_shader_module\<close>\<close>

text \<open>
  The function takes the value of the variable \<^verbatim>\<open>_shader_module\<close> points to and the
  \<^verbatim>\<open>ShaderInfo\<close> it has a reference to, and returns its \<^verbatim>\<open>int\<close>, both variables and
  the trace. With \<^verbatim>\<open>NCNN_VULKAN_ONLINE_SPIRV\<close> the shader is compiled from the kernel
  index; without it the index of one of ten precompiled variants is chosen by the chain of
  \<^verbatim>\<open>if\<close>s. \<^verbatim>\<open>shader_type_index += 9\<close> is on an \<^verbatim>\<open>int\<close> far from its bounds.
\<close>

definition create_shader_module ::
  "externals \<Rightarrow> VulkanDevice \<Rightarrow> int \<Rightarrow> Option \<Rightarrow> u32 \<Rightarrow> u32 \<Rightarrow> u32 \<Rightarrow> handle \<Rightarrow> ShaderInfo \<Rightarrow>
     vk_call list \<Rightarrow> int \<times> handle \<times> ShaderInfo \<times> vk_call list" where
  "create_shader_module ext vkdev index opt local_size_x local_size_y local_size_z sm si log =
     (if NCNN_VULKAN_ONLINE_SPIRV ext then
        (case compile_spirv_module ext index opt of (retc, spirv) \<Rightarrow>
           if retc \<noteq> 0 then (-1, sm, si, log)
           else (case resolve_shader_info ext spirv si of (ret, si1) \<Rightarrow>
             if ret \<noteq> 0 then (-1, sm, si1, log)
             else
               let r = vkdev_compile_shader_module vkdev log spirv local_size_x local_size_y local_size_z;
                   log1 = log @ [Create ShaderModule r]
               in if handle_of r = 0 then (-1, sm, si1, log1)
                  else (0, handle_of r, si1, log1)))
      else
        let index1 =
             (if \<not> bug_layout_binding_id_alias (info vkdev) \<and> use_image_storage opt
                 \<and> support_fp16_storage (info vkdev) \<and> use_fp16_storage opt
                 \<and> support_fp16_arithmetic (info vkdev) \<and> use_fp16_arithmetic opt
              then index + 9
              else if \<not> bug_layout_binding_id_alias (info vkdev) \<and> use_image_storage opt
                 \<and> support_fp16_packed (info vkdev) \<and> use_fp16_packed opt
                 \<and> support_fp16_arithmetic (info vkdev) \<and> use_fp16_arithmetic opt
              then index + 7
              else if \<not> bug_layout_binding_id_alias (info vkdev) \<and> use_image_storage opt
                 \<and> support_fp16_storage (info vkdev) \<and> use_fp16_storage opt
              then index + 8
              else if \<not> bug_layout_binding_id_alias (info vkdev) \<and> use_image_storage opt
                 \<and> support_fp16_packed (info vkdev) \<and> use_fp16_packed opt
              then index + 6
              else if \<not> bug_layout_binding_id_alias (info vkdev) \<and> use_image_storage opt
              then index + 5
              else if support_fp16_storage (info vkdev) \<and> use_fp16_storage opt
                 \<and> support_fp16_arithmetic (info vkdev) \<and> use_fp16_arithmetic opt
              then index + 4
              else if support_fp16_packed (info vkdev) \<and> use_fp16_packed opt
                 \<and> support_fp16_arithmetic (info vkdev) \<and> use_fp16_arithmetic opt
              then index + 2
              else if support_fp16_storage (info vkdev) \<and> use_fp16_storage opt
              then index + 3
              else if support_fp16_packed (info vkdev) \<and> use_fp16_packed opt
              then index + 1
              else index);
            si1 = get_shader_info ext index1;
            r = vkdev_create_shader_module vkdev log index1 local_size_x local_size_y local_size_z;
            log1 = log @ [Create ShaderModule r]
        in if handle_of r = 0 then (-1, sm, si1, log1)
           else (0, handle_of r, si1, log1))"

subsection \<open>\<^verbatim>\<open>new_pipeline\<close>\<close>

text \<open>
  The block at the label \<^verbatim>\<open>ERROR\<close>, as a function of the four local variables
  (\<open>dsl\<close>, \<open>pl\<close>, \<open>pipe\<close> and \<open>dut\<close> stand for \<^verbatim>\<open>descriptorset_layout\<close>,
  \<^verbatim>\<open>pipeline_layout\<close>, \<^verbatim>\<open>pipeline\<close> and \<^verbatim>\<open>descriptor_update_template\<close>).
\<close>

definition new_pipeline_ERROR ::
  "VulkanDevice \<Rightarrow> handle \<Rightarrow> handle \<Rightarrow> handle \<Rightarrow> handle \<Rightarrow> vk_call list \<Rightarrow> vk_call list" where
  "new_pipeline_ERROR vkdev dsl pl pipe dut log =
     (let log1 = (if support_VK_KHR_descriptor_update_template (info vkdev)
                  then (if dut \<noteq> 0 then log @ [Destroy DescriptorUpdateTemplate dut] else log)
                  else log);
          log2 = (if pipe \<noteq> 0 then log1 @ [Destroy Pipeline pipe] else log1);
          log3 = (if pl \<noteq> 0 then log2 @ [Destroy PipelineLayout pl] else log2);
          log4 = (if dsl \<noteq> 0 then log3 @ [Destroy DescriptorSetLayout dsl] else log3)
      in log4)"

text \<open>
  \<^verbatim>\<open>new_pipeline\<close> returns its \<^verbatim>\<open>int\<close>, the variables of the caller (of which it writes
  four, on success only) and the trace. \<^verbatim>\<open>(int)specializations.size()\<close> is the length of
  the list.
\<close>

definition new_pipeline ::
  "VulkanDevice \<Rightarrow> handle \<Rightarrow> ShaderInfo \<Rightarrow> vk_specialization_type list \<Rightarrow> out_params \<Rightarrow>
     vk_call list \<Rightarrow> int \<times> out_params \<times> vk_call list" where
  "new_pipeline vkdev sm si specializations out log =
     (if int (length specializations) \<noteq> specialization_count si
      then (-1, out, new_pipeline_ERROR vkdev 0 0 0 0 log)
      else
        let r1 = vkdev_create_descriptorset_layout vkdev log (binding_count si) (binding_types si);
            dsl = written r1 0;
            log1 = log @ [Create DescriptorSetLayout r1]
        in if ret_of r1 \<noteq> 0 then (-1, out, new_pipeline_ERROR vkdev dsl 0 0 0 log1)
        else
        let r2 = vkdev_create_pipeline_layout vkdev log1 (push_constant_count si) dsl;
            pl = written r2 0;
            log2 = log1 @ [Create PipelineLayout r2]
        in if ret_of r2 \<noteq> 0 then (-1, out, new_pipeline_ERROR vkdev dsl pl 0 0 log2)
        else
        let r3 = vkdev_create_pipeline vkdev log2 sm pl specializations;
            pipe = written r3 0;
            log3 = log2 @ [Create Pipeline r3]
        in if ret_of r3 \<noteq> 0 then (-1, out, new_pipeline_ERROR vkdev dsl pl pipe 0 log3)
        else
        if support_VK_KHR_descriptor_update_template (info vkdev) then
          let r4 = vkdev_create_descriptor_update_template vkdev log3
                     (binding_count si) (binding_types si) dsl pl;
              dut = written r4 0;
              log4 = log3 @ [Create DescriptorUpdateTemplate r4]
          in if ret_of r4 \<noteq> 0 then (-1, out, new_pipeline_ERROR vkdev dsl pl pipe dut log4)
          else (0, out\<lparr> out_descriptorset_layout := dsl, out_pipeline_layout := pl,
                         out_pipeline := pipe, out_descriptor_update_template := dut \<rparr>, log4)
        else (0, out\<lparr> out_descriptorset_layout := dsl, out_pipeline_layout := pl,
                       out_pipeline := pipe, out_descriptor_update_template := 0 \<rparr>, log3))"

subsection \<open>\<^verbatim>\<open>clear\<close>\<close>

fun clear_loop :: "VulkanDevice \<Rightarrow> pipeline_cache_artifact list \<Rightarrow> vk_call list \<Rightarrow> vk_call list" where
  "clear_loop vkdev [] log = log"
| "clear_loop vkdev (cc # rest) log =
     (let log1 = (if support_VK_KHR_descriptor_update_template (info vkdev)
                  then (if descriptor_update_template cc \<noteq> 0
                        then log @ [Destroy DescriptorUpdateTemplate (descriptor_update_template cc)]
                        else log)
                  else log);
          log2 = (if pipeline cc \<noteq> 0 then log1 @ [Destroy Pipeline (pipeline cc)] else log1);
          log3 = (if pipeline_layout cc \<noteq> 0
                  then log2 @ [Destroy PipelineLayout (pipeline_layout cc)] else log2);
          log4 = (if descriptorset_layout cc \<noteq> 0
                  then log3 @ [Destroy DescriptorSetLayout (descriptorset_layout cc)] else log3);
          log5 = (if shader_module cc \<noteq> 0
                  then log4 @ [Destroy ShaderModule (shader_module cc)] else log4)
      in clear_loop vkdev rest log5)"

definition clear :: "VulkanDevice \<Rightarrow> PipelineCache \<Rightarrow> vk_call list \<Rightarrow> PipelineCache \<times> vk_call list" where
  "clear vkdev c log =
     (c\<lparr> cache_digests := [], cache_artifacts := [] \<rparr>, clear_loop vkdev (cache_artifacts c) log)"

subsection \<open>\<^verbatim>\<open>get_pipeline\<close> from bytecode\<close>

text \<open>
  The overload that takes \<^verbatim>\<open>spv_data\<close>. Like every member function it is given the
  cache and returns it.
\<close>

definition get_pipeline_spv ::
  "externals \<Rightarrow> VulkanDevice \<Rightarrow> u32 list \<Rightarrow> vk_specialization_type list \<Rightarrow> u32 \<Rightarrow> u32 \<Rightarrow> u32 \<Rightarrow>
     out_params \<Rightarrow> PipelineCache \<Rightarrow> vk_call list \<Rightarrow> int \<times> out_params \<times> PipelineCache \<times> vk_call list" where
  "get_pipeline_spv ext vkdev spv_data specializations local_size_x local_size_y local_size_z out c log =
     (case resolve_shader_info ext spv_data (out_shader_info out) of (ret, si) \<Rightarrow>
        let out1 = out\<lparr> out_shader_info := si \<rparr> in
        if ret \<noteq> 0 then (-1, out1, c, log)
        else
          let r = vkdev_compile_shader_module vkdev log spv_data local_size_x local_size_y local_size_z;
              sm = handle_of r;
              log1 = log @ [Create ShaderModule r]
          in if sm = 0 then (-1, out1, c, log1)
          else (case new_pipeline vkdev sm si specializations out1 log1 of (ret2, out2, log2) \<Rightarrow>
            if ret2 \<noteq> 0 then (-1, out2, c, log2 @ [Destroy ShaderModule sm])
            else (0, out2\<lparr> out_shader_module := sm \<rparr>, c, log2)))"

subsection \<open>\<^verbatim>\<open>get_pipeline\<close> from a kernel index\<close>

text \<open>
  The loop that looks for the key: the index of the first digest equal to it, if any.
\<close>

fun find_cache :: "pipeline_cache_digest list \<Rightarrow> pipeline_cache_digest \<Rightarrow> nat \<Rightarrow> nat option" where
  "find_cache [] key i = None"
| "find_cache (d # ds) key i = (if d = key then Some i else find_cache ds key (Suc i))"

text \<open>
  \<^verbatim>\<open>cache_artifacts[i]\<close> beyond the end of the vector is undefined behaviour in C++; it is
  the result \<open>None\<close> here.
\<close>

definition get_pipeline ::
  "externals \<Rightarrow> VulkanDevice \<Rightarrow> int \<Rightarrow> Option \<Rightarrow> vk_specialization_type list \<Rightarrow> u32 \<Rightarrow> u32 \<Rightarrow> u32 \<Rightarrow>
     out_params \<Rightarrow> PipelineCache \<Rightarrow> vk_call list \<Rightarrow>
     (int \<times> out_params \<times> PipelineCache \<times> vk_call list) option" where
  "get_pipeline ext vkdev index opt specializations local_size_x local_size_y local_size_z out c log =
     (let key = pipeline_cache_digest_init index opt specializations local_size_x local_size_y local_size_z
      in case find_cache (cache_digests c) key 0 of
        Some i \<Rightarrow>
          if i < length (cache_artifacts c) then
            let cc = cache_artifacts c ! i
            in Some (0, out\<lparr> out_shader_module := shader_module cc,
                               out_descriptorset_layout := descriptorset_layout cc,
                               out_pipeline_layout := pipeline_layout cc,
                               out_pipeline := pipeline cc,
                               out_descriptor_update_template := descriptor_update_template cc,
                               out_shader_info := shader_info cc \<rparr>, c, log)
          else None
      | None \<Rightarrow>
          (case create_shader_module ext vkdev index opt local_size_x local_size_y local_size_z
                  0 (out_shader_info out) log of
             (ret, sm, si, log1) \<Rightarrow>
               let out1 = out\<lparr> out_shader_info := si \<rparr> in
               if ret \<noteq> 0 then Some (-1, out1, c, log1)
               else (case new_pipeline vkdev sm si specializations out1 log1 of
                 (ret2, out2, log2) \<Rightarrow>
                   if ret2 \<noteq> 0 then Some (-1, out2, c, log2 @ [Destroy ShaderModule sm])
                   else
                     let out3 = out2\<lparr> out_shader_module := sm \<rparr>;
                         cc = \<lparr> shader_module = out_shader_module out3,
                                descriptorset_layout = out_descriptorset_layout out3,
                                pipeline_layout = out_pipeline_layout out3,
                                pipeline = out_pipeline out3,
                                descriptor_update_template = out_descriptor_update_template out3,
                                shader_info = out_shader_info out3 \<rparr>
                     in Some (0, out3,
                              c\<lparr> cache_digests := cache_digests c @ [key],
                                 cache_artifacts := cache_artifacts c @ [cc] \<rparr>, log2))))"

section \<open>What the specification says\<close>

subsection \<open>The table of variants\<close>

text \<open>
  The ten rules of the specification in their order, each a condition on the options asked
  for and on the capabilities of the device, with the offset of its variant. The first rule
  whose condition holds gives the offset.
\<close>

definition variant_rules :: "((Option \<Rightarrow> GpuInfo \<Rightarrow> bool) \<times> int) list" where
  "variant_rules =
     [ (\<lambda>opt gpu. \<not> bug_layout_binding_id_alias gpu \<and> use_image_storage opt
          \<and> support_fp16_storage gpu \<and> use_fp16_storage opt
          \<and> support_fp16_arithmetic gpu \<and> use_fp16_arithmetic opt, 9),
       (\<lambda>opt gpu. \<not> bug_layout_binding_id_alias gpu \<and> use_image_storage opt
          \<and> support_fp16_packed gpu \<and> use_fp16_packed opt
          \<and> support_fp16_arithmetic gpu \<and> use_fp16_arithmetic opt, 7),
       (\<lambda>opt gpu. \<not> bug_layout_binding_id_alias gpu \<and> use_image_storage opt
          \<and> support_fp16_storage gpu \<and> use_fp16_storage opt, 8),
       (\<lambda>opt gpu. \<not> bug_layout_binding_id_alias gpu \<and> use_image_storage opt
          \<and> support_fp16_packed gpu \<and> use_fp16_packed opt, 6),
       (\<lambda>opt gpu. \<not> bug_layout_binding_id_alias gpu \<and> use_image_storage opt, 5),
       (\<lambda>opt gpu. support_fp16_storage gpu \<and> use_fp16_storage opt
          \<and> support_fp16_arithmetic gpu \<and> use_fp16_arithmetic opt, 4),
       (\<lambda>opt gpu. support_fp16_packed gpu \<and> use_fp16_packed opt
          \<and> support_fp16_arithmetic gpu \<and> use_fp16_arithmetic opt, 2),
       (\<lambda>opt gpu. support_fp16_storage gpu \<and> use_fp16_storage opt, 3),
       (\<lambda>opt gpu. support_fp16_packed gpu \<and> use_fp16_packed opt, 1),
       (\<lambda>opt gpu. True, 0) ]"

fun first_match :: "((Option \<Rightarrow> GpuInfo \<Rightarrow> bool) \<times> int) list \<Rightarrow> Option \<Rightarrow> GpuInfo \<Rightarrow> int" where
  "first_match [] opt gpu = 0"
| "first_match ((cond, offset) # rules) opt gpu =
     (if cond opt gpu then offset else first_match rules opt gpu)"

definition select_variant :: "Option \<Rightarrow> GpuInfo \<Rightarrow> int" where
  "select_variant opt gpu = first_match variant_rules opt gpu"

subsection \<open>Reading a trace\<close>

text \<open>
  The calls that destroy the non-null handles of a list, in the order of the list; the
  non-null handles that the calls of a trace created, and the handles they destroyed, both in
  the order of the calls.
\<close>

definition destroy_calls :: "(vk_object \<times> handle) list \<Rightarrow> vk_call list" where
  "destroy_calls hs = map (\<lambda>(obj, h). Destroy obj h) (filter (\<lambda>(obj, h). h \<noteq> 0) hs)"

fun created_handles :: "vk_call list \<Rightarrow> (vk_object \<times> handle) list" where
  "created_handles [] = []"
| "created_handles (Create obj (Created h) # calls) =
     (if h \<noteq> 0 then (obj, h) # created_handles calls else created_handles calls)"
| "created_handles (call # calls) = created_handles calls"

fun destroyed_handles :: "vk_call list \<Rightarrow> (vk_object \<times> handle) list" where
  "destroyed_handles [] = []"
| "destroyed_handles (Destroy obj h # calls) = (obj, h) # destroyed_handles calls"
| "destroyed_handles (call # calls) = destroyed_handles calls"

text \<open>The five handles a stored bundle owns, in the order in which teardown destroys them.\<close>

definition owned_handles :: "pipeline_cache_artifact \<Rightarrow> (vk_object \<times> handle) list" where
  "owned_handles cc =
     [ (DescriptorUpdateTemplate, descriptor_update_template cc),
       (Pipeline, pipeline cc),
       (PipelineLayout, pipeline_layout cc),
       (DescriptorSetLayout, descriptorset_layout cc),
       (ShaderModule, shader_module cc) ]"

subsection \<open>Invariants of the store\<close>

text \<open>
  The two vectors have the same length. On a device without descriptor update templates no
  stored bundle has one: \<^verbatim>\<open>new_pipeline\<close> leaves the handle null there.
\<close>

definition same_length :: "PipelineCache \<Rightarrow> bool" where
  "same_length c \<longleftrightarrow> length (cache_digests c) = length (cache_artifacts c)"

definition templates_supported :: "VulkanDevice \<Rightarrow> PipelineCache \<Rightarrow> bool" where
  "templates_supported vkdev c \<longleftrightarrow>
     support_VK_KHR_descriptor_update_template (info vkdev)
     \<or> list_all (\<lambda>cc. descriptor_update_template cc = 0) (cache_artifacts c)"

text \<open>
  The stores a cache can be in: it starts empty, and only its three operations change it.
\<close>

inductive reachable :: "externals \<Rightarrow> VulkanDevice \<Rightarrow> PipelineCache \<Rightarrow> bool"
  for ext :: externals and vkdev :: VulkanDevice where
  initial: "reachable ext vkdev \<lparr> cache_digests = [], cache_artifacts = [] \<rparr>"
| keyed:
    "reachable ext vkdev c \<Longrightarrow>
     get_pipeline ext vkdev index opt specializations lx ly lz out c log = Some (ret, out', c', log')
       \<Longrightarrow> reachable ext vkdev c'"
| bytecode:
    "reachable ext vkdev c \<Longrightarrow>
     get_pipeline_spv ext vkdev spv_data specializations lx ly lz out c log = (ret, out', c', log')
       \<Longrightarrow> reachable ext vkdev c'"
| cleared:
    "reachable ext vkdev c \<Longrightarrow> clear vkdev c log = (c', log') \<Longrightarrow> reachable ext vkdev c'"

text \<open>The bundle that the variables of the caller hold after a successful request.\<close>

definition bundle_of :: "out_params \<Rightarrow> pipeline_cache_artifact" where
  "bundle_of out =
     \<lparr> shader_module = out_shader_module out,
       descriptorset_layout = out_descriptorset_layout out,
       pipeline_layout = out_pipeline_layout out,
       pipeline = out_pipeline out,
       descriptor_update_template = out_descriptor_update_template out,
       shader_info = out_shader_info out \<rparr>"

section \<open>Concrete devices and requests\<close>

text \<open>
  A table of signatures in which the binding count tells the variant, a build with the
  precompiled variants and one that compiles online, a device that supports everything and one
  with the erratum, and a device whose creates succeed, each with a fresh handle, until the
  trace has \<open>n\<close> calls and fail from then on.
\<close>

definition table_shader_info :: "int \<Rightarrow> ShaderInfo" where
  "table_shader_info i =
     \<lparr> specialization_count = 0, binding_count = i, push_constant_count = 0, binding_types = [] \<rparr>"

definition table_build :: externals where
  "table_build =
     \<lparr> NCNN_VULKAN_ONLINE_SPIRV = False,
       compile_spirv_module = (\<lambda>index opt. (-1, [])),
       resolve_shader_info = (\<lambda>spv si. (if spv = [] then -1 else 0, table_shader_info 0)),
       get_shader_info = table_shader_info \<rparr>"

definition capable_gpu :: GpuInfo where
  "capable_gpu =
     \<lparr> bug_layout_binding_id_alias = False, support_fp16_packed = True,
       support_fp16_storage = True, support_fp16_arithmetic = True,
       support_VK_KHR_descriptor_update_template = True \<rparr>"

definition erratum_gpu :: GpuInfo where
  "erratum_gpu = capable_gpu\<lparr> bug_layout_binding_id_alias := True \<rparr>"

definition answer :: "nat \<Rightarrow> vk_call list \<Rightarrow> create_result" where
  "answer n log = (if length log < n then Created (Suc (length log)) else Failed)"

definition failing_after :: "GpuInfo \<Rightarrow> nat \<Rightarrow> VulkanDevice" where
  "failing_after gpu n =
     \<lparr> info = gpu,
       vkdev_compile_shader_module = (\<lambda>log spv x y z. answer n log),
       vkdev_create_shader_module = (\<lambda>log index x y z. answer n log),
       vkdev_create_descriptorset_layout = (\<lambda>log count types. answer n log),
       vkdev_create_pipeline_layout = (\<lambda>log count dsl. answer n log),
       vkdev_create_pipeline = (\<lambda>log sm pl specializations. answer n log),
       vkdev_create_descriptor_update_template = (\<lambda>log count types dsl pl. answer n log) \<rparr>"

text \<open>
  The request of the specification's scenario: image storage, fp16 storage and fp16
  arithmetic; the same request with int8 storage; an empty cache and cleared variables.
\<close>

definition scenario_opt :: Option where
  "scenario_opt =
     \<lparr> use_image_storage = True, use_fp16_packed = False, use_fp16_storage = True,
       use_fp16_arithmetic = True, use_int8_storage = False, use_int8_arithmetic = False \<rparr>"

definition int8_opt :: Option where
  "int8_opt = scenario_opt\<lparr> use_int8_storage := True \<rparr>"

definition empty_cache :: PipelineCache where
  "empty_cache = \<lparr> cache_digests = [], cache_artifacts = [] \<rparr>"

definition cleared_out :: out_params where
  "cleared_out =
     \<lparr> out_shader_module = 0, out_descriptorset_layout = 0, out_pipeline_layout = 0,
       out_pipeline = 0, out_descriptor_update_template = 0,
       out_shader_info = table_shader_info 0 \<rparr>"

text \<open>
  A store with two bundles, the second without descriptor-set layout and without template,
  under the key of the scenario and the key of kernel 4.
\<close>

definition stored_cache :: PipelineCache where
  "stored_cache =
     \<lparr> cache_digests =
         [ pipeline_cache_digest_init 3 scenario_opt [] 8 8 1,
           pipeline_cache_digest_init 4 scenario_opt [] 8 8 1 ],
       cache_artifacts =
         [ \<lparr> shader_module = 11, descriptorset_layout = 12, pipeline_layout = 13, pipeline = 14,
             descriptor_update_template = 15, shader_info = table_shader_info 12 \<rparr>,
           \<lparr> shader_module = 21, descriptorset_layout = 0, pipeline_layout = 23, pipeline = 24,
             descriptor_update_template = 0, shader_info = table_shader_info 13 \<rparr> ] \<rparr>"

text \<open>
  What the scenario leaves when every create succeeds: the calls made, the variables of the
  caller and the store.
\<close>

definition scenario_calls :: "vk_call list" where
  "scenario_calls =
     [ Create ShaderModule (Created 1), Create DescriptorSetLayout (Created 2),
       Create PipelineLayout (Created 3), Create Pipeline (Created 4),
       Create DescriptorUpdateTemplate (Created 5) ]"

definition scenario_out :: out_params where
  "scenario_out =
     \<lparr> out_shader_module = 1, out_descriptorset_layout = 2, out_pipeline_layout = 3,
       out_pipeline = 4, out_descriptor_update_template = 5,
       out_shader_info = table_shader_info 12 \<rparr>"

definition scenario_cache :: PipelineCache where
  "scenario_cache =
     \<lparr> cache_digests = [pipeline_cache_digest_init 3 scenario_opt [] 8 8 1],
       cache_artifacts =
         [ \<lparr> shader_module = 1, descriptorset_layout = 2, pipeline_layout = 3, pipeline = 4,
             descriptor_update_template = 5, shader_info = table_shader_info 12 \<rparr> ] \<rparr>"

section \<open>The hash functions against their references\<close>

lemma unat_xor32: "unat (a XOR b :: u32) = unat a XOR unat b"
  by (rule unsigned_xor_eq)

lemma unat_shr32: "unat (drop_bit n (a :: u32)) = unat a div 2 ^ n"
  by (subst unat_drop_bit_eq) (rule drop_bit_eq_div)

lemma unat_mul32: "unat (a * b :: u32) = (unat a * unat b) mod 2 ^ 32"
  by (simp add: unat_word_ariths)

lemma unat_add32: "unat (a + b :: u32) = (unat a + unat b) mod 2 ^ 32"
  by (simp add: unat_word_ariths)

lemma unat_shl32: "unat (push_bit r (k :: u32)) = (unat k * 2 ^ r) mod 2 ^ 32"
proof -
  have "unat (push_bit r k) = take_bit 32 (push_bit r (unat k))"
    by (simp add: unsigned_push_bit_eq)
  then show ?thesis
    by (simp only: take_bit_eq_mod push_bit_eq_mult)
qed

text \<open>
  The two shifted halves of a rotation have no bit in common, so their \<open>OR\<close> is their sum.
\<close>

lemma unat_rotl32:
  fixes k :: u32
  assumes "0 < r" "r < 32"
  shows "unat (push_bit r k OR drop_bit (32 - r) k) = rotl32 (unat k) r"
proof -
  have split_or: "unat (push_bit r k OR drop_bit (32 - r) k)
      = unat (push_bit r k) OR unat (drop_bit (32 - r) k)"
    by (rule unsigned_or_eq)
  have disjoint: "unat (push_bit r k) OR unat (drop_bit (32 - r) k)
      = unat (push_bit r k) + unat (drop_bit (32 - r) k)"
    by (rule disjunctive_add_eq_or [symmetric], rule bit_eqI)
       (use assms in \<open>auto simp add: bit_simps dest: bit_imp_le_length\<close>)
  show ?thesis
    unfolding split_or disjoint by (simp only: unat_shl32 unat_shr32 rotl32_def)
qed

lemma unat_ucast_u8: "unat (ucast (b :: u8) :: u32) = unat b"
proof -
  have "unat b < 2 ^ 8"
    using unsigned_less [of b] by simp
  then have "unat b < 2 ^ 32"
    by simp
  then show ?thesis
    by (simp add: unsigned_ucast_eq take_bit_nat_eq_self)
qed

lemma fnv1a_32_loop_reference:
  "unat (fnv1a_32_loop bytes h) =
     foldl (\<lambda>h b. ((h XOR b) * 0x01000193) mod 2 ^ 32) (unat h) (map unat bytes)"
  by (induction bytes arbitrary: h)
     (simp_all add: Let_def unat_mul32 unat_xor32 unat_ucast_u8)

lemma murmur3_32_step:
  fixes h k :: u32
  shows "unat (let k1 = k * 0xcc9e2d51;
                   k2 = push_bit 15 k1 OR drop_bit (32 - 15) k1;
                   k3 = k2 * 0x1b873593;
                   h1 = h XOR k3;
                   h2 = push_bit 13 h1 OR drop_bit (32 - 13) h1
               in (h2 * 5) + 0xe6546b64)
         = murmur3_mix (unat h) (unat k)"
proof -
  have r15: "\<And>x :: u32. unat (push_bit 15 x OR drop_bit (32 - 15) x) = rotl32 (unat x) 15"
    by (rule unat_rotl32) simp_all
  have r13: "\<And>x :: u32. unat (push_bit 13 x OR drop_bit (32 - 13) x) = rotl32 (unat x) 13"
    by (rule unat_rotl32) simp_all
  show ?thesis
    unfolding Let_def murmur3_mix_def murmur3_scramble_def
    by (simp only: unat_add32 unat_mul32 r13 r15 unat_xor32) (simp add: mod_simps mult.commute)
qed

lemma murmur3_32_loop_reference:
  "unat (murmur3_32_loop ws h) = foldl murmur3_mix (unat h) (map unat ws)"
proof (induction ws arbitrary: h)
  case Nil
  show ?case by simp
next
  case (Cons k ws)
  have "murmur3_32_loop (k # ws) h =
          murmur3_32_loop ws
            (let k1 = k * 0xcc9e2d51;
                 k2 = push_bit 15 k1 OR drop_bit (32 - 15) k1;
                 k3 = k2 * 0x1b873593;
                 h1 = h XOR k3;
                 h2 = push_bit 13 h1 OR drop_bit (32 - 13) h1
             in (h2 * 5) + 0xe6546b64)"
    by (simp only: murmur3_32_loop.simps Let_def)
  then show ?case
    by (simp only: Cons.IH murmur3_32_step list.map foldl_Cons)
qed

lemma murmur3_32_finalizer:
  fixes h :: u32
  shows "unat (let h2 = h XOR drop_bit 16 h;
                   h3 = h2 * 0x85ebca6b;
                   h4 = h3 XOR drop_bit 13 h3;
                   h5 = h4 * 0xc2b2ae35;
                   h6 = h5 XOR drop_bit 16 h5
               in h6) = murmur3_fmix (unat h)"
  unfolding Let_def murmur3_fmix_def
  by (simp only: unat_xor32 unat_shr32 unat_mul32) simp

lemma unat_length_times_4:
  "unat (of_nat (length ws * 4) :: u32) = (4 * length ws) mod 2 ^ 32"
  by (simp only: unat_of_nat mult.commute [of 4]) simp

text \<open>
  Published test vectors: FNV-1a of \<open>a\<close> and of \<open>foobar\<close>, Murmur3-32 with seed \<open>0\<close> of the
  empty input and of the four bytes \<open>test\<close> read as one little-endian word.
\<close>

lemma hash_test_vectors:
  "fnv1a_32 [] = 0x811c9dc5"
  "fnv1a_32 [0x61] = 0xe40c292c"
  "fnv1a_32 [0x66, 0x6f, 0x6f, 0x62, 0x61, 0x72] = 0xbf9cf968"
  "murmur3_32 [] = 0"
  "murmur3_32 [0x74736574] = 0xba6bd213"
  by (simp_all add: fnv1a_32_def murmur3_32_def)

text \<open>
  C5. Read as natural numbers, the results of \<open>fnv1a_32\<close> and of \<open>murmur3_32\<close> are those of
  the reference algorithms: FNV-1a with offset basis \<open>0x811c9dc5\<close> and prime \<open>0x01000193\<close>
  over the bytes in order, and the Murmur3-32 word loop with seed \<open>0\<close>, the constants
  \<open>0xcc9e2d51\<close> and \<open>0x1b873593\<close>, the rotations by 15 and 13, the mix \<open>5 * h + 0xe6546b64\<close>,
  the xor with four times the number of words and the finalizer with shifts 16, 13, 16 and
  constants \<open>0x85ebca6b\<close> and \<open>0xc2b2ae35\<close>, everything modulo \<open>2 ^ 32\<close>.
\<close>

theorem hashes_match_reference:
  "unat (fnv1a_32 bytes) = fnv1a_reference (map unat bytes)
   \<and> unat (murmur3_32 ws) = murmur3_reference (map unat ws)"
proof
  show "unat (fnv1a_32 bytes) = fnv1a_reference (map unat bytes)"
    by (simp add: fnv1a_32_def fnv1a_reference_def fnv1a_32_loop_reference)
  have "unat (murmur3_32 ws) =
          murmur3_fmix (unat (murmur3_32_loop ws 0 XOR of_nat (length ws * 4)))"
    unfolding murmur3_32_def
    using murmur3_32_finalizer [of "murmur3_32_loop ws 0 XOR of_nat (length ws * 4)"]
    by (simp only: Let_def)
  then show "unat (murmur3_32 ws) = murmur3_reference (map unat ws)"
    by (simp only: murmur3_reference_def unat_xor32 unat_length_times_4
          murmur3_32_loop_reference length_map) simp
qed

section \<open>The choice of the variant\<close>

lemma select_variant_chain:
  "select_variant opt gpu =
     (if \<not> bug_layout_binding_id_alias gpu \<and> use_image_storage opt
         \<and> support_fp16_storage gpu \<and> use_fp16_storage opt
         \<and> support_fp16_arithmetic gpu \<and> use_fp16_arithmetic opt
      then 9
      else if \<not> bug_layout_binding_id_alias gpu \<and> use_image_storage opt
         \<and> support_fp16_packed gpu \<and> use_fp16_packed opt
         \<and> support_fp16_arithmetic gpu \<and> use_fp16_arithmetic opt
      then 7
      else if \<not> bug_layout_binding_id_alias gpu \<and> use_image_storage opt
         \<and> support_fp16_storage gpu \<and> use_fp16_storage opt
      then 8
      else if \<not> bug_layout_binding_id_alias gpu \<and> use_image_storage opt
         \<and> support_fp16_packed gpu \<and> use_fp16_packed opt
      then 6
      else if \<not> bug_layout_binding_id_alias gpu \<and> use_image_storage opt
      then 5
      else if support_fp16_storage gpu \<and> use_fp16_storage opt
         \<and> support_fp16_arithmetic gpu \<and> use_fp16_arithmetic opt
      then 4
      else if support_fp16_packed gpu \<and> use_fp16_packed opt
         \<and> support_fp16_arithmetic gpu \<and> use_fp16_arithmetic opt
      then 2
      else if support_fp16_storage gpu \<and> use_fp16_storage opt
      then 3
      else if support_fp16_packed gpu \<and> use_fp16_packed opt
      then 1
      else 0)"
  unfolding select_variant_def variant_rules_def
  by (simp only: first_match.simps if_True)

text \<open>The index that the chain of \<^verbatim>\<open>if\<close>s computes is the base index plus the offset.\<close>

lemma variant_index:
  "(if \<not> bug_layout_binding_id_alias gpu \<and> use_image_storage opt
       \<and> support_fp16_storage gpu \<and> use_fp16_storage opt
       \<and> support_fp16_arithmetic gpu \<and> use_fp16_arithmetic opt
    then index + 9
    else if \<not> bug_layout_binding_id_alias gpu \<and> use_image_storage opt
       \<and> support_fp16_packed gpu \<and> use_fp16_packed opt
       \<and> support_fp16_arithmetic gpu \<and> use_fp16_arithmetic opt
    then index + 7
    else if \<not> bug_layout_binding_id_alias gpu \<and> use_image_storage opt
       \<and> support_fp16_storage gpu \<and> use_fp16_storage opt
    then index + 8
    else if \<not> bug_layout_binding_id_alias gpu \<and> use_image_storage opt
       \<and> support_fp16_packed gpu \<and> use_fp16_packed opt
    then index + 6
    else if \<not> bug_layout_binding_id_alias gpu \<and> use_image_storage opt
    then index + 5
    else if support_fp16_storage gpu \<and> use_fp16_storage opt
       \<and> support_fp16_arithmetic gpu \<and> use_fp16_arithmetic opt
    then index + 4
    else if support_fp16_packed gpu \<and> use_fp16_packed opt
       \<and> support_fp16_arithmetic gpu \<and> use_fp16_arithmetic opt
    then index + 2
    else if support_fp16_storage gpu \<and> use_fp16_storage opt
    then index + 3
    else if support_fp16_packed gpu \<and> use_fp16_packed opt
    then index + 1
    else index) = index + select_variant opt gpu"
  unfolding select_variant_chain
  by (simp only: if_distrib [of "(+) index"] add_0_right)

lemma create_shader_module_table:
  assumes "\<not> NCNN_VULKAN_ONLINE_SPIRV ext"
  shows "create_shader_module ext vkdev index opt lx ly lz sm si log =
           (let index1 = index + select_variant opt (info vkdev);
                r = vkdev_create_shader_module vkdev log index1 lx ly lz
            in (if handle_of r = 0 then -1 else 0,
                if handle_of r = 0 then sm else handle_of r,
                get_shader_info ext index1,
                log @ [Create ShaderModule r]))"
proof -
  have off: "NCNN_VULKAN_ONLINE_SPIRV ext = False"
    using assms by simp
  show ?thesis
    unfolding create_shader_module_def variant_index off Let_def
    by (simp only: if_False split: if_split) simp
qed

text \<open>
  C1. In the build with the precompiled variants, \<open>create_shader_module\<close> looks up the
  signature and creates the module of the base index plus the offset of the first rule of
  the table that holds; with the erratum flag the offset is never one of the image variants
  5 to 9; a request that satisfies rule 1, and so rule 6 as well, gets offset 9.
\<close>

theorem create_shader_module_variant:
  assumes "\<not> NCNN_VULKAN_ONLINE_SPIRV ext"
  shows "create_shader_module ext vkdev index opt lx ly lz sm si log =
           (let index1 = index + select_variant opt (info vkdev);
                r = vkdev_create_shader_module vkdev log index1 lx ly lz
            in (if handle_of r = 0 then -1 else 0,
                if handle_of r = 0 then sm else handle_of r,
                get_shader_info ext index1,
                log @ [Create ShaderModule r]))
         \<and> (bug_layout_binding_id_alias (info vkdev) \<longrightarrow>
              select_variant opt (info vkdev) \<in> {0, 1, 2, 3, 4})
         \<and> (\<not> bug_layout_binding_id_alias (info vkdev) \<and> use_image_storage opt
              \<and> support_fp16_storage (info vkdev) \<and> use_fp16_storage opt
              \<and> support_fp16_arithmetic (info vkdev) \<and> use_fp16_arithmetic opt \<longrightarrow>
              select_variant opt (info vkdev) = 9)"
proof (intro conjI impI)
  show "create_shader_module ext vkdev index opt lx ly lz sm si log =
           (let index1 = index + select_variant opt (info vkdev);
                r = vkdev_create_shader_module vkdev log index1 lx ly lz
            in (if handle_of r = 0 then -1 else 0,
                if handle_of r = 0 then sm else handle_of r,
                get_shader_info ext index1,
                log @ [Create ShaderModule r]))"
    using assms by (rule create_shader_module_table)
next
  assume "bug_layout_binding_id_alias (info vkdev)"
  then show "select_variant opt (info vkdev) \<in> {0, 1, 2, 3, 4}"
    unfolding select_variant_chain by (simp only: simp_thms if_False) simp
next
  assume "\<not> bug_layout_binding_id_alias (info vkdev) \<and> use_image_storage opt
              \<and> support_fp16_storage (info vkdev) \<and> use_fp16_storage opt
              \<and> support_fp16_arithmetic (info vkdev) \<and> use_fp16_arithmetic opt"
  then show "select_variant opt (info vkdev) = 9"
    unfolding select_variant_chain by (simp only: simp_thms if_True)
qed

lemmas fixture_defs = table_build_def table_shader_info_def capable_gpu_def erratum_gpu_def
  failing_after_def answer_def scenario_opt_def empty_cache_def cleared_out_def stored_cache_def
  scenario_calls_def scenario_out_def scenario_cache_def int8_opt_def

text \<open>
  The scenario of the specification: kernel 3 with image storage, fp16 storage and fp16
  arithmetic on a capable device gets variant 12; on a device with the erratum the same
  request gets offset 4.
\<close>

theorem create_shader_module_variant_witness:
  "\<not> NCNN_VULKAN_ONLINE_SPIRV table_build
   \<and> create_shader_module table_build (failing_after capable_gpu 9) 3 scenario_opt 8 8 1
        0 (table_shader_info 0) [] =
       (0, 1, table_shader_info 12, [Create ShaderModule (Created 1)])
   \<and> select_variant scenario_opt (info (failing_after capable_gpu 9)) = 9
   \<and> bug_layout_binding_id_alias (info (failing_after erratum_gpu 9))
   \<and> select_variant scenario_opt (info (failing_after erratum_gpu 9)) \<in> {0, 1, 2, 3, 4}"
proof -
  have build: "\<not> NCNN_VULKAN_ONLINE_SPIRV table_build"
    by (simp add: table_build_def)
  have rule1: "\<not> bug_layout_binding_id_alias (info (failing_after capable_gpu 9))
      \<and> use_image_storage scenario_opt
      \<and> support_fp16_storage (info (failing_after capable_gpu 9)) \<and> use_fp16_storage scenario_opt
      \<and> support_fp16_arithmetic (info (failing_after capable_gpu 9))
      \<and> use_fp16_arithmetic scenario_opt"
    by (simp add: fixture_defs)
  have erratum: "bug_layout_binding_id_alias (info (failing_after erratum_gpu 9))"
    by (simp add: fixture_defs)
  note capable = create_shader_module_variant [OF build, of "failing_after capable_gpu 9"
      3 scenario_opt 8 8 1 0 "table_shader_info 0" "[]"]
  note broken = create_shader_module_variant [OF build, of "failing_after erratum_gpu 9"
      3 scenario_opt 8 8 1 0 "table_shader_info 0" "[]"]
  have nine: "select_variant scenario_opt (info (failing_after capable_gpu 9)) = 9"
    using capable rule1 by blast
  have "create_shader_module table_build (failing_after capable_gpu 9) 3 scenario_opt 8 8 1
        0 (table_shader_info 0) [] =
       (0, 1, table_shader_info 12, [Create ShaderModule (Created 1)])"
    using capable unfolding nine by (simp add: fixture_defs)
  moreover have "select_variant scenario_opt (info (failing_after erratum_gpu 9)) \<in> {0, 1, 2, 3, 4}"
    using broken erratum by blast
  ultimately show ?thesis
    using build nine erratum by blast
qed

section \<open>Building a pipeline\<close>

text \<open>
  C6. When the number of specialization values differs from the count of the signature,
  \<open>new_pipeline\<close> fails with \<open>-1\<close>, writes none of the variables of the caller and makes no
  call on the device: nothing is created and nothing is destroyed.
\<close>

theorem new_pipeline_count_mismatch:
  "int (length specializations) \<noteq> specialization_count si \<Longrightarrow>
     new_pipeline vkdev sm si specializations out log = (-1, out, log)"
  by (simp add: new_pipeline_def new_pipeline_ERROR_def)

theorem new_pipeline_count_mismatch_witness:
  "int (length [7 :: vk_specialization_type]) \<noteq> specialization_count (table_shader_info 0)
   \<and> new_pipeline (failing_after capable_gpu 9) 1 (table_shader_info 0) [7] cleared_out
        [Create ShaderModule (Created 1)] =
      (-1, cleared_out, [Create ShaderModule (Created 1)])"
proof -
  have differ: "int (length [7 :: vk_specialization_type]) \<noteq> specialization_count (table_shader_info 0)"
    by (simp add: table_shader_info_def)
  show ?thesis
    using differ new_pipeline_count_mismatch [OF differ] by simp
qed

lemma handle_of_written: "written r 0 = handle_of r"
  by (cases r) simp_all

lemma ret_of_Failed: "ret_of r \<noteq> 0 \<longleftrightarrow> r = Failed"
  by (cases r) simp_all

text \<open>
  The block at \<^verbatim>\<open>ERROR\<close> destroys what is not null, the template first and the
  descriptor-set layout last.
\<close>

lemma new_pipeline_ERROR_calls:
  "support_VK_KHR_descriptor_update_template (info vkdev) \<or> dut = 0 \<Longrightarrow>
   new_pipeline_ERROR vkdev dsl pl pipe dut log =
     log @ destroy_calls [(DescriptorUpdateTemplate, dut), (Pipeline, pipe),
                          (PipelineLayout, pl), (DescriptorSetLayout, dsl)]"
  by (auto simp add: new_pipeline_ERROR_def destroy_calls_def)

lemma destroy_calls_null: "destroy_calls ((obj, 0) # hs) = destroy_calls hs"
  by (simp add: destroy_calls_def)

text \<open>
  C2. With the right number of specialization values, let \<open>r1\<close>, ..., \<open>r4\<close> be what the
  device answers to the four creates in turn. If the first answer to be a failure is that of
  step 1, 2, 3 or 4, then \<open>new_pipeline\<close> returns \<open>-1\<close>, leaves the variables of the caller
  as they were, and after the creates up to the failed one it makes exactly the calls that
  destroy the handles created before, those that are not null, each once, the latest first:
  pipeline, pipeline layout, descriptor-set layout. (The template is the last to be
  created, so it is never among them.)
\<close>

theorem new_pipeline_rollback:
  assumes "int (length specializations) = specialization_count si"
  shows
    "(let r1 = vkdev_create_descriptorset_layout vkdev log (binding_count si) (binding_types si);
          log1 = log @ [Create DescriptorSetLayout r1];
          r2 = vkdev_create_pipeline_layout vkdev log1 (push_constant_count si) (handle_of r1);
          log2 = log1 @ [Create PipelineLayout r2];
          r3 = vkdev_create_pipeline vkdev log2 sm (handle_of r2) specializations;
          log3 = log2 @ [Create Pipeline r3];
          r4 = vkdev_create_descriptor_update_template vkdev log3
                 (binding_count si) (binding_types si) (handle_of r1) (handle_of r2);
          log4 = log3 @ [Create DescriptorUpdateTemplate r4]
      in (r1 = Failed \<longrightarrow>
            new_pipeline vkdev sm si specializations out log = (-1, out, log1))
       \<and> (r1 \<noteq> Failed \<and> r2 = Failed \<longrightarrow>
            new_pipeline vkdev sm si specializations out log =
              (-1, out, log2 @ destroy_calls [(DescriptorSetLayout, handle_of r1)]))
       \<and> (r1 \<noteq> Failed \<and> r2 \<noteq> Failed \<and> r3 = Failed \<longrightarrow>
            new_pipeline vkdev sm si specializations out log =
              (-1, out, log3 @ destroy_calls
                 [(PipelineLayout, handle_of r2), (DescriptorSetLayout, handle_of r1)]))
       \<and> (r1 \<noteq> Failed \<and> r2 \<noteq> Failed \<and> r3 \<noteq> Failed
            \<and> support_VK_KHR_descriptor_update_template (info vkdev) \<and> r4 = Failed \<longrightarrow>
            new_pipeline vkdev sm si specializations out log =
              (-1, out, log4 @ destroy_calls
                 [(Pipeline, handle_of r3), (PipelineLayout, handle_of r2),
                  (DescriptorSetLayout, handle_of r1)])))"
proof -
  let ?r1 = "vkdev_create_descriptorset_layout vkdev log (binding_count si) (binding_types si)"
  let ?log1 = "log @ [Create DescriptorSetLayout ?r1]"
  let ?r2 = "vkdev_create_pipeline_layout vkdev ?log1 (push_constant_count si) (handle_of ?r1)"
  let ?log2 = "?log1 @ [Create PipelineLayout ?r2]"
  let ?r3 = "vkdev_create_pipeline vkdev ?log2 sm (handle_of ?r2) specializations"
  let ?log3 = "?log2 @ [Create Pipeline ?r3]"
  let ?r4 = "vkdev_create_descriptor_update_template vkdev ?log3
               (binding_count si) (binding_types si) (handle_of ?r1) (handle_of ?r2)"
  let ?log4 = "?log3 @ [Create DescriptorUpdateTemplate ?r4]"
  note unfold = new_pipeline_def Let_def handle_of_written ret_of_Failed
    new_pipeline_ERROR_calls destroy_calls_null
  have step1: "new_pipeline vkdev sm si specializations out log = (-1, out, ?log1)"
    if "?r1 = Failed"
    using assms that by (simp add: unfold destroy_calls_def)
  have step2: "new_pipeline vkdev sm si specializations out log
      = (-1, out, ?log2 @ destroy_calls [(DescriptorSetLayout, handle_of ?r1)])"
    if "?r1 \<noteq> Failed \<and> ?r2 = Failed"
    using assms that by (simp add: unfold)
  have step3: "new_pipeline vkdev sm si specializations out log
      = (-1, out, ?log3 @ destroy_calls
           [(PipelineLayout, handle_of ?r2), (DescriptorSetLayout, handle_of ?r1)])"
    if "?r1 \<noteq> Failed \<and> ?r2 \<noteq> Failed \<and> ?r3 = Failed"
    using assms that by (simp add: unfold)
  have step4: "new_pipeline vkdev sm si specializations out log
      = (-1, out, ?log4 @ destroy_calls
           [(Pipeline, handle_of ?r3), (PipelineLayout, handle_of ?r2),
            (DescriptorSetLayout, handle_of ?r1)])"
    if "?r1 \<noteq> Failed \<and> ?r2 \<noteq> Failed \<and> ?r3 \<noteq> Failed
        \<and> support_VK_KHR_descriptor_update_template (info vkdev) \<and> ?r4 = Failed"
    using assms that by (simp add: unfold)
  show ?thesis
    unfolding Let_def using step1 step2 step3 step4 by blast
qed

text \<open>
  A device that fails at its first, second, third and fourth call, asked to build a pipeline
  for module 7.
\<close>

theorem new_pipeline_rollback_witness:
  "new_pipeline (failing_after capable_gpu 0) 7 (table_shader_info 1) [] cleared_out [] =
     (-1, cleared_out, [Create DescriptorSetLayout Failed])
   \<and> new_pipeline (failing_after capable_gpu 1) 7 (table_shader_info 1) [] cleared_out [] =
     (-1, cleared_out,
      [Create DescriptorSetLayout (Created 1), Create PipelineLayout Failed,
       Destroy DescriptorSetLayout 1])
   \<and> new_pipeline (failing_after capable_gpu 2) 7 (table_shader_info 1) [] cleared_out [] =
     (-1, cleared_out,
      [Create DescriptorSetLayout (Created 1), Create PipelineLayout (Created 2),
       Create Pipeline Failed,
       Destroy PipelineLayout 2, Destroy DescriptorSetLayout 1])
   \<and> new_pipeline (failing_after capable_gpu 3) 7 (table_shader_info 1) [] cleared_out [] =
     (-1, cleared_out,
      [Create DescriptorSetLayout (Created 1), Create PipelineLayout (Created 2),
       Create Pipeline (Created 3), Create DescriptorUpdateTemplate Failed,
       Destroy Pipeline 3, Destroy PipelineLayout 2, Destroy DescriptorSetLayout 1])"
proof -
  have count: "int (length ([] :: vk_specialization_type list)) = specialization_count (table_shader_info 1)"
    by (simp add: table_shader_info_def)
  note at = new_pipeline_rollback [OF count, of _ "[]" 7 cleared_out, unfolded Let_def]
  have "new_pipeline (failing_after capable_gpu 0) 7 (table_shader_info 1) [] cleared_out [] =
     (-1, cleared_out, [Create DescriptorSetLayout Failed])"
    using at [of "failing_after capable_gpu 0"] by (simp add: fixture_defs destroy_calls_def)
  moreover
  have "new_pipeline (failing_after capable_gpu 1) 7 (table_shader_info 1) [] cleared_out [] =
     (-1, cleared_out,
      [Create DescriptorSetLayout (Created 1), Create PipelineLayout Failed,
       Destroy DescriptorSetLayout 1])"
    using at [of "failing_after capable_gpu 1"] by (simp add: fixture_defs destroy_calls_def)
  moreover
  have "new_pipeline (failing_after capable_gpu 2) 7 (table_shader_info 1) [] cleared_out [] =
     (-1, cleared_out,
      [Create DescriptorSetLayout (Created 1), Create PipelineLayout (Created 2),
       Create Pipeline Failed,
       Destroy PipelineLayout 2, Destroy DescriptorSetLayout 1])"
    using at [of "failing_after capable_gpu 2"] by (simp add: fixture_defs destroy_calls_def)
  moreover
  have "new_pipeline (failing_after capable_gpu 3) 7 (table_shader_info 1) [] cleared_out [] =
     (-1, cleared_out,
      [Create DescriptorSetLayout (Created 1), Create PipelineLayout (Created 2),
       Create Pipeline (Created 3), Create DescriptorUpdateTemplate Failed,
       Destroy Pipeline 3, Destroy PipelineLayout 2, Destroy DescriptorSetLayout 1])"
    using at [of "failing_after capable_gpu 3"] by (simp add: fixture_defs destroy_calls_def)
  ultimately show ?thesis
    by blast
qed

section \<open>Teardown\<close>

lemma clear_loop_calls:
  assumes "support_VK_KHR_descriptor_update_template (info vkdev)
     \<or> list_all (\<lambda>cc. descriptor_update_template cc = 0) ccs"
  shows "clear_loop vkdev ccs log =
           log @ concat (map (\<lambda>cc. destroy_calls (owned_handles cc)) ccs)"
  using assms
proof (induction ccs arbitrary: log)
  case Nil
  show ?case by simp
next
  case (Cons cc ccs)
  have step: "clear_loop vkdev (cc # ccs) log =
      clear_loop vkdev ccs (log @ destroy_calls (owned_handles cc))"
    using Cons.prems by (auto simp add: Let_def destroy_calls_def owned_handles_def)
  have "support_VK_KHR_descriptor_update_template (info vkdev)
     \<or> list_all (\<lambda>cc. descriptor_update_template cc = 0) ccs"
    using Cons.prems by auto
  then show ?case
    unfolding step by (simp add: Cons.IH)
qed

text \<open>
  C7. On a store as the cache builds it (no template on a device without templates, which
  \<open>reachable_invariants\<close> below shows of every store a cache can be in), \<open>clear\<close>
  makes, bundle after bundle, exactly the calls that destroy the handles of the bundle that
  are not null, each once, in the order template, pipeline, pipeline layout, descriptor-set
  layout, shader module; the store it leaves has no digest and no bundle.
\<close>

theorem clear_destroys_all:
  assumes "templates_supported vkdev c"
  shows "clear vkdev c log =
           (c\<lparr> cache_digests := [], cache_artifacts := [] \<rparr>,
            log @ concat (map (\<lambda>cc. destroy_calls (owned_handles cc)) (cache_artifacts c)))
         \<and> cache_digests (fst (clear vkdev c log)) = []
         \<and> cache_artifacts (fst (clear vkdev c log)) = []"
  using assms by (simp add: clear_def clear_loop_calls templates_supported_def)

text \<open>A store with two bundles on a capable device, cleared after one earlier call.\<close>

theorem clear_destroys_all_witness:
  "templates_supported (failing_after capable_gpu 9) stored_cache
   \<and> clear (failing_after capable_gpu 9) stored_cache [Create ShaderModule Failed] =
       (empty_cache,
        [ Create ShaderModule Failed,
          Destroy DescriptorUpdateTemplate 15, Destroy Pipeline 14, Destroy PipelineLayout 13,
          Destroy DescriptorSetLayout 12, Destroy ShaderModule 11,
          Destroy Pipeline 24, Destroy PipelineLayout 23, Destroy ShaderModule 21 ])"
proof -
  have inv: "templates_supported (failing_after capable_gpu 9) stored_cache"
    by (simp add: templates_supported_def fixture_defs)
  show ?thesis
    using inv clear_destroys_all [OF inv, of "[Create ShaderModule Failed]"]
    by (simp add: fixture_defs destroy_calls_def owned_handles_def)
qed

section \<open>Traces of a failed build\<close>

lemma created_handles_append:
  "created_handles (xs @ ys) = created_handles xs @ created_handles ys"
  by (induction xs rule: created_handles.induct) simp_all

lemma destroyed_handles_append:
  "destroyed_handles (xs @ ys) = destroyed_handles xs @ destroyed_handles ys"
  by (induction xs rule: destroyed_handles.induct) simp_all

lemma created_handles_Create:
  "created_handles (Create obj r # calls) =
     (if handle_of r \<noteq> 0 then (obj, handle_of r) # created_handles calls
      else created_handles calls)"
  by (cases r) simp_all

lemma created_destroy_calls: "created_handles (destroy_calls hs) = []"
  by (induction hs) (auto simp add: destroy_calls_def)

lemma destroyed_destroy_calls:
  "destroyed_handles (destroy_calls hs) = filter (\<lambda>(obj, h). h \<noteq> 0) hs"
  by (induction hs) (auto simp add: destroy_calls_def)

lemmas trace_simps = created_handles_append destroyed_handles_append created_handles_Create
  created_destroy_calls destroyed_destroy_calls

text \<open>
  Every outcome of \<open>new_pipeline\<close>: on success the four variables hold the handles of the
  creates it made and nothing was destroyed; on failure the variables are untouched and what
  was created has been destroyed, latest first.
\<close>

lemma new_pipeline_failure:
  assumes "new_pipeline vkdev sm si specializations out log = (ret, out', log')"
    and "ret \<noteq> 0"
  shows "ret = -1 \<and> out' = out \<and>
         (\<exists>calls. log' = log @ calls \<and> destroyed_handles calls = rev (created_handles calls))"
proof (cases "int (length specializations) = specialization_count si")
  case False
  then show ?thesis
    using assms by (auto simp add: new_pipeline_def new_pipeline_ERROR_def)
next
  case True
  show ?thesis
    using assms True
    apply (simp add: new_pipeline_def Let_def handle_of_written ret_of_Failed
        new_pipeline_ERROR_calls split: if_splits)
       apply (auto simp add: trace_simps)
    done
qed

lemma new_pipeline_success:
  assumes "new_pipeline vkdev sm si specializations out log = (0, out', log')"
  shows "\<exists>dsl pl pipe dut calls.
           out' = out\<lparr> out_descriptorset_layout := dsl, out_pipeline_layout := pl,
                       out_pipeline := pipe, out_descriptor_update_template := dut \<rparr>
         \<and> (support_VK_KHR_descriptor_update_template (info vkdev) \<or> dut = 0)
         \<and> log' = log @ calls
         \<and> Create Pipeline (Created pipe) \<in> set calls
         \<and> destroyed_handles calls = []"
proof -
  let ?r1 = "vkdev_create_descriptorset_layout vkdev log (binding_count si) (binding_types si)"
  let ?log1 = "log @ [Create DescriptorSetLayout ?r1]"
  let ?r2 = "vkdev_create_pipeline_layout vkdev ?log1 (push_constant_count si) (handle_of ?r1)"
  let ?log2 = "?log1 @ [Create PipelineLayout ?r2]"
  let ?r3 = "vkdev_create_pipeline vkdev ?log2 sm (handle_of ?r2) specializations"
  let ?log3 = "?log2 @ [Create Pipeline ?r3]"
  let ?r4 = "vkdev_create_descriptor_update_template vkdev ?log3
               (binding_count si) (binding_types si) (handle_of ?r1) (handle_of ?r2)"
  have created: "\<And>r. r \<noteq> Failed \<Longrightarrow> r = Created (handle_of r)"
    by (case_tac r) simp_all
  have count: "int (length specializations) = specialization_count si"
    using assms by (cases "int (length specializations) = specialization_count si")
      (simp_all add: new_pipeline_def)
  have ok: "?r1 \<noteq> Failed \<and> ?r2 \<noteq> Failed \<and> ?r3 \<noteq> Failed"
    using assms count
    by (simp add: new_pipeline_def Let_def handle_of_written ret_of_Failed split: if_splits)
  then have r3: "?r3 = Created (handle_of ?r3)"
    using created by blast
  show ?thesis
  proof (cases "support_VK_KHR_descriptor_update_template (info vkdev)")
    case True
    have r4: "?r4 \<noteq> Failed"
      using assms count ok True
      by (simp add: new_pipeline_def Let_def handle_of_written ret_of_Failed split: if_splits)
    have res: "out' = out\<lparr> out_descriptorset_layout := handle_of ?r1,
                 out_pipeline_layout := handle_of ?r2, out_pipeline := handle_of ?r3,
                 out_descriptor_update_template := handle_of ?r4 \<rparr>
        \<and> log' = log @ [Create DescriptorSetLayout ?r1, Create PipelineLayout ?r2,
                         Create Pipeline ?r3, Create DescriptorUpdateTemplate ?r4]"
      using assms count ok True r4
      by (simp add: new_pipeline_def Let_def handle_of_written ret_of_Failed)
    show ?thesis
      apply (rule exI [of _ "handle_of ?r1"], rule exI [of _ "handle_of ?r2"],
          rule exI [of _ "handle_of ?r3"], rule exI [of _ "handle_of ?r4"])
      apply (rule exI [of _ "[Create DescriptorSetLayout ?r1, Create PipelineLayout ?r2,
                         Create Pipeline ?r3, Create DescriptorUpdateTemplate ?r4]"])
      using res True r3 apply simp
      done
  next
    case False
    have res: "out' = out\<lparr> out_descriptorset_layout := handle_of ?r1,
                 out_pipeline_layout := handle_of ?r2, out_pipeline := handle_of ?r3,
                 out_descriptor_update_template := 0 \<rparr>
        \<and> log' = log @ [Create DescriptorSetLayout ?r1, Create PipelineLayout ?r2,
                         Create Pipeline ?r3]"
      using assms count ok False
      by (simp add: new_pipeline_def Let_def handle_of_written ret_of_Failed)
    show ?thesis
      apply (rule exI [of _ "handle_of ?r1"], rule exI [of _ "handle_of ?r2"],
          rule exI [of _ "handle_of ?r3"], rule exI [of _ 0])
      apply (rule exI [of _ "[Create DescriptorSetLayout ?r1, Create PipelineLayout ?r2,
                         Create Pipeline ?r3]"])
      using res r3 apply simp
      done
  qed
qed

text \<open>
  Every outcome of \<open>create_shader_module\<close>, in both builds: it makes at most one call; on
  success that call created the module it returns, which is not null; on failure no module
  exists.
\<close>

lemma create_shader_module_outcome:
  assumes "create_shader_module ext vkdev index opt lx ly lz sm si log = (ret, sm', si', log')"
  shows "(ret = 0 \<and> sm' \<noteq> 0 \<and> (\<exists>r. log' = log @ [Create ShaderModule r] \<and> handle_of r = sm'))
       \<or> (ret = -1 \<and> sm' = sm
            \<and> (log' = log \<or> (\<exists>r. log' = log @ [Create ShaderModule r] \<and> handle_of r = 0)))"
proof (cases "NCNN_VULKAN_ONLINE_SPIRV ext")
  case True
  then show ?thesis
    using assms
    by (auto simp add: create_shader_module_def Let_def split: prod.splits if_splits)
next
  case False
  then show ?thesis
    using assms unfolding create_shader_module_table [OF False]
    by (auto simp add: Let_def split: if_splits)
qed

section \<open>Looking a key up\<close>

lemma find_cache_None: "find_cache ds key i = None \<longleftrightarrow> key \<notin> set ds"
  by (induction ds arbitrary: i) auto

lemma find_cache_Some:
  "find_cache ds key i = Some n \<Longrightarrow>
     \<exists>j. n = i + j \<and> j < length ds \<and> ds ! j = key \<and> (\<forall>k < j. ds ! k \<noteq> key)"
proof (induction ds arbitrary: i)
  case Nil
  then show ?case by simp
next
  case (Cons d ds)
  show ?case
  proof (cases "d = key")
    case True
    then have "n = i"
      using Cons.prems by simp
    then show ?thesis
      using True by (intro exI [of _ 0]) simp
  next
    case False
    then have "find_cache ds key (Suc i) = Some n"
      using Cons.prems by simp
    then obtain j where j: "n = Suc i + j" "j < length ds" "ds ! j = key" "\<forall>k < j. ds ! k \<noteq> key"
      using Cons.IH by blast
    have "\<forall>k < Suc j. (d # ds) ! k \<noteq> key"
      using False j(4) by (auto simp add: nth_Cons split: nat.splits)
    then show ?thesis
      using j by (intro exI [of _ "Suc j"]) simp
  qed
qed

lemma find_cache_first:
  assumes "i < length ds" and "ds ! i = key"
  shows "\<exists>j \<le> i. find_cache ds key 0 = Some j \<and> ds ! j = key \<and> (\<forall>k < j. ds ! k \<noteq> key)"
proof -
  have "key \<in> set ds"
    using assms by (auto simp add: in_set_conv_nth)
  then obtain n where n: "find_cache ds key 0 = Some n"
    using find_cache_None [of ds key 0] by (cases "find_cache ds key 0") auto
  then obtain j where j: "n = j" "j < length ds" "ds ! j = key" "\<forall>k < j. ds ! k \<noteq> key"
    using find_cache_Some [OF n] by auto
  have "j \<le> i"
  proof (rule ccontr)
    assume "\<not> j \<le> i"
    then have "i < j" by simp
    then have "ds ! i \<noteq> key" using j(4) by blast
    then show False using assms(2) by simp
  qed
  then show ?thesis
    using n j by blast
qed

lemma find_cache_appended:
  "key \<notin> set ds \<Longrightarrow> find_cache (ds @ [key]) key i = Some (i + length ds)"
  by (induction ds arbitrary: i) auto

section \<open>The keyed request\<close>

text \<open>What a hit returns: the six variables get the fields of the stored bundle.\<close>

lemma get_pipeline_hit:
  assumes "find_cache (cache_digests c)
             (pipeline_cache_digest_init index opt specializations lx ly lz) 0 = Some j"
    and "j < length (cache_artifacts c)"
  shows "get_pipeline ext vkdev index opt specializations lx ly lz out c log =
           Some (0, out\<lparr> out_shader_module := shader_module (cache_artifacts c ! j),
                          out_descriptorset_layout := descriptorset_layout (cache_artifacts c ! j),
                          out_pipeline_layout := pipeline_layout (cache_artifacts c ! j),
                          out_pipeline := pipeline (cache_artifacts c ! j),
                          out_descriptor_update_template :=
                            descriptor_update_template (cache_artifacts c ! j),
                          out_shader_info := shader_info (cache_artifacts c ! j) \<rparr>, c, log)"
  using assms by (simp add: get_pipeline_def Let_def)

text \<open>
  What a miss returns, in terms of the two steps of the build.
\<close>

lemma get_pipeline_miss:
  assumes "pipeline_cache_digest_init index opt specializations lx ly lz \<notin> set (cache_digests c)"
    and "create_shader_module ext vkdev index opt lx ly lz 0 (out_shader_info out) log
           = (ret, sm, si, log1)"
    and "new_pipeline vkdev sm si specializations (out\<lparr> out_shader_info := si \<rparr>) log1
           = (ret2, out2, log2)"
  shows "get_pipeline ext vkdev index opt specializations lx ly lz out c log =
           (if ret \<noteq> 0 then Some (-1, out\<lparr> out_shader_info := si \<rparr>, c, log1)
            else if ret2 \<noteq> 0 then Some (-1, out2, c, log2 @ [Destroy ShaderModule sm])
            else Some (0, out2\<lparr> out_shader_module := sm \<rparr>,
                       c\<lparr> cache_digests := cache_digests c
                              @ [pipeline_cache_digest_init index opt specializations lx ly lz],
                          cache_artifacts := cache_artifacts c
                              @ [bundle_of (out2\<lparr> out_shader_module := sm \<rparr>)] \<rparr>, log2))"
proof -
  have "find_cache (cache_digests c)
          (pipeline_cache_digest_init index opt specializations lx ly lz) 0 = None"
    using assms(1) by (simp add: find_cache_None)
  then show ?thesis
    using assms(2,3) by (simp add: get_pipeline_def Let_def bundle_of_def)
qed

text \<open>
  C3. When the key is not in the store and the build fails, because
  \<open>create_shader_module\<close> fails or because \<open>new_pipeline\<close> fails on the module it made, the
  keyed \<open>get_pipeline\<close> returns \<open>-1\<close> and the store as it was, and in the calls it made on
  the device every non-null handle that was created, the shader module among them, has been
  destroyed, once, the latest first.
\<close>

theorem get_pipeline_failed_build:
  assumes "pipeline_cache_digest_init index opt specializations lx ly lz \<notin> set (cache_digests c)"
    and "(case create_shader_module ext vkdev index opt lx ly lz 0 (out_shader_info out) log of
            (ret, sm, si, log1) \<Rightarrow>
              ret \<noteq> 0 \<or>
              fst (new_pipeline vkdev sm si specializations (out\<lparr> out_shader_info := si \<rparr>) log1)
                \<noteq> 0)"
  shows "\<exists>out' calls.
           get_pipeline ext vkdev index opt specializations lx ly lz out c log
             = Some (-1, out', c, log @ calls)
         \<and> destroyed_handles calls = rev (created_handles calls)"
proof -
  obtain ret sm si log1 where csm:
    "create_shader_module ext vkdev index opt lx ly lz 0 (out_shader_info out) log
       = (ret, sm, si, log1)"
    by (metis prod_cases4)
  obtain ret2 out2 log2 where np:
    "new_pipeline vkdev sm si specializations (out\<lparr> out_shader_info := si \<rparr>) log1
       = (ret2, out2, log2)"
    by (metis prod_cases3)
  note result = get_pipeline_miss [OF assms(1) csm np]
  note module = create_shader_module_outcome [OF csm]
  show ?thesis
  proof (cases "ret \<noteq> 0")
    case True
    then obtain calls where "log1 = log @ calls" "created_handles calls = []"
        "destroyed_handles calls = []"
      using module by (auto simp add: trace_simps)
    then show ?thesis
      using result True by simp
  next
    case False
    then have "ret2 \<noteq> 0"
      using assms(2) csm np by simp
    then obtain calls where calls: "log2 = log1 @ calls"
        "destroyed_handles calls = rev (created_handles calls)"
      using new_pipeline_failure [OF np] by blast
    obtain r where r: "log1 = log @ [Create ShaderModule r]" "handle_of r = sm" "sm \<noteq> 0"
      using module False by auto
    have "log2 @ [Destroy ShaderModule sm]
            = log @ (Create ShaderModule r # calls @ [Destroy ShaderModule sm])"
      using calls r by simp
    moreover have "destroyed_handles (Create ShaderModule r # calls @ [Destroy ShaderModule sm])
        = rev (created_handles (Create ShaderModule r # calls @ [Destroy ShaderModule sm]))"
      using calls(2) r by (simp add: trace_simps)
    ultimately show ?thesis
      using result False \<open>ret2 \<noteq> 0\<close> by simp
  qed
qed

text \<open>
  A request for kernel 5, which the store of two bundles does not hold, on a device that
  fails at its fourth call (the pipeline), and on one that fails at its first (the module).
\<close>

theorem get_pipeline_failed_build_witness:
  "pipeline_cache_digest_init 5 scenario_opt [] 8 8 1 \<notin> set (cache_digests stored_cache)
   \<and> get_pipeline table_build (failing_after capable_gpu 3) 5 scenario_opt [] 8 8 1
        cleared_out stored_cache [] =
      Some (-1, cleared_out\<lparr> out_shader_info := table_shader_info 14 \<rparr>, stored_cache,
        [ Create ShaderModule (Created 1), Create DescriptorSetLayout (Created 2),
          Create PipelineLayout (Created 3), Create Pipeline Failed,
          Destroy PipelineLayout 3, Destroy DescriptorSetLayout 2, Destroy ShaderModule 1 ])
   \<and> (\<exists>out'. get_pipeline table_build (failing_after capable_gpu 0) 5 scenario_opt [] 8 8 1
        cleared_out stored_cache [] =
      Some (-1, out', stored_cache, [Create ShaderModule Failed]))"
proof -
  have miss: "pipeline_cache_digest_init 5 scenario_opt [] 8 8 1 \<notin> set (cache_digests stored_cache)"
    by (simp add: stored_cache_def pipeline_cache_digest_init_def)
  have module: "\<And>n. create_shader_module table_build (failing_after capable_gpu n) 5 scenario_opt
      8 8 1 0 (out_shader_info cleared_out) [] =
      (if n = 0 then -1 else 0, if n = 0 then 0 else 1, table_shader_info 14,
       [Create ShaderModule (if n = 0 then Failed else Created 1)])"
    by (simp add: create_shader_module_def fixture_defs)
  have fails3: "(case create_shader_module table_build (failing_after capable_gpu 3) 5 scenario_opt
            8 8 1 0 (out_shader_info cleared_out) [] of
          (ret, sm, si, log1) \<Rightarrow>
            ret \<noteq> 0 \<or>
            fst (new_pipeline (failing_after capable_gpu 3) sm si []
                  (cleared_out\<lparr> out_shader_info := si \<rparr>) log1) \<noteq> 0)"
    unfolding module
    by (simp add: new_pipeline_def new_pipeline_ERROR_def fixture_defs)
  have fails0: "(case create_shader_module table_build (failing_after capable_gpu 0) 5 scenario_opt
            8 8 1 0 (out_shader_info cleared_out) [] of
          (ret, sm, si, log1) \<Rightarrow>
            ret \<noteq> 0 \<or>
            fst (new_pipeline (failing_after capable_gpu 0) sm si []
                  (cleared_out\<lparr> out_shader_info := si \<rparr>) log1) \<noteq> 0)"
    unfolding module by simp
  have none: "find_cache (cache_digests stored_cache)
      (pipeline_cache_digest_init 5 scenario_opt [] 8 8 1) 0 = None"
    using miss by (simp add: find_cache_None)
  have run3: "the (get_pipeline table_build (failing_after capable_gpu 3) 5 scenario_opt [] 8 8 1
        cleared_out stored_cache []) =
      (-1, cleared_out\<lparr> out_shader_info := table_shader_info 14 \<rparr>, stored_cache,
        [ Create ShaderModule (Created 1), Create DescriptorSetLayout (Created 2),
          Create PipelineLayout (Created 3), Create Pipeline Failed,
          Destroy PipelineLayout 3, Destroy DescriptorSetLayout 2, Destroy ShaderModule 1 ])"
    unfolding get_pipeline_def Let_def module none
    by (simp add: new_pipeline_def new_pipeline_ERROR_def
        table_shader_info_def capable_gpu_def failing_after_def answer_def cleared_out_def)
  have run0: "snd (snd (snd (the (get_pipeline table_build (failing_after capable_gpu 0) 5
        scenario_opt [] 8 8 1 cleared_out stored_cache [])))) = [Create ShaderModule Failed]"
    unfolding get_pipeline_def Let_def module none
    by simp
  show ?thesis
    using miss run3 run0
      get_pipeline_failed_build [OF miss fails3]
      get_pipeline_failed_build [OF miss fails0]
    by auto
qed

text \<open>
  C4. In a store whose two vectors have the same length (as they have in every store a cache
  can be in, by \<open>reachable_invariants\<close> below) and in which some digest equals the key of
  the request, the keyed \<open>get_pipeline\<close> returns \<open>0\<close>, copies the five handles and
  the signature of the bundle at the first index whose digest equals the key, makes no call
  on the device and leaves the store as it is. Hence a request that succeeded, repeated on
  the store it left, returns what it returned.
\<close>

theorem get_pipeline_cache_hit:
  assumes "same_length c"
  shows "(i < length (cache_digests c)
          \<and> cache_digests c ! i = pipeline_cache_digest_init index opt specializations lx ly lz \<longrightarrow>
          (\<exists>j \<le> i.
             cache_digests c ! j = pipeline_cache_digest_init index opt specializations lx ly lz
           \<and> (\<forall>k < j. cache_digests c ! k
                 \<noteq> pipeline_cache_digest_init index opt specializations lx ly lz)
           \<and> get_pipeline ext vkdev index opt specializations lx ly lz out c log =
               Some (0, out\<lparr> out_shader_module := shader_module (cache_artifacts c ! j),
                              out_descriptorset_layout := descriptorset_layout (cache_artifacts c ! j),
                              out_pipeline_layout := pipeline_layout (cache_artifacts c ! j),
                              out_pipeline := pipeline (cache_artifacts c ! j),
                              out_descriptor_update_template :=
                                descriptor_update_template (cache_artifacts c ! j),
                              out_shader_info := shader_info (cache_artifacts c ! j) \<rparr>,
                     c, log)))
       \<and> (get_pipeline ext vkdev index opt specializations lx ly lz out c log
             = Some (0, out1, c1, log1) \<longrightarrow>
           get_pipeline ext vkdev index opt specializations lx ly lz out2 c1 log2
             = Some (0, out1, c1, log2))"
proof (intro conjI impI)
  let ?key = "pipeline_cache_digest_init index opt specializations lx ly lz"
  assume "i < length (cache_digests c) \<and> cache_digests c ! i = ?key"
  then obtain j where j: "j \<le> i" "find_cache (cache_digests c) ?key 0 = Some j"
      "cache_digests c ! j = ?key" "\<forall>k < j. cache_digests c ! k \<noteq> ?key"
    using find_cache_first [of i "cache_digests c" ?key] by blast
  have "j < length (cache_artifacts c)"
    using j(1) \<open>i < length (cache_digests c) \<and> cache_digests c ! i = ?key\<close> assms
    by (simp add: same_length_def)
  then show "\<exists>j \<le> i. cache_digests c ! j = ?key \<and> (\<forall>k < j. cache_digests c ! k \<noteq> ?key)
           \<and> get_pipeline ext vkdev index opt specializations lx ly lz out c log =
               Some (0, out\<lparr> out_shader_module := shader_module (cache_artifacts c ! j),
                              out_descriptorset_layout := descriptorset_layout (cache_artifacts c ! j),
                              out_pipeline_layout := pipeline_layout (cache_artifacts c ! j),
                              out_pipeline := pipeline (cache_artifacts c ! j),
                              out_descriptor_update_template :=
                                descriptor_update_template (cache_artifacts c ! j),
                              out_shader_info := shader_info (cache_artifacts c ! j) \<rparr>,
                     c, log)"
    using j get_pipeline_hit [OF j(2)] by blast
next
  let ?key = "pipeline_cache_digest_init index opt specializations lx ly lz"
  assume first: "get_pipeline ext vkdev index opt specializations lx ly lz out c log
             = Some (0, out1, c1, log1)"
  show "get_pipeline ext vkdev index opt specializations lx ly lz out2 c1 log2
             = Some (0, out1, c1, log2)"
  proof (cases "find_cache (cache_digests c) ?key 0")
    case (Some j)
    then have j: "j < length (cache_artifacts c)"
      using find_cache_Some [OF Some] assms by (auto simp add: same_length_def)
    have "c1 = c" and "out1 = out\<lparr> out_shader_module := shader_module (cache_artifacts c ! j),
                              out_descriptorset_layout := descriptorset_layout (cache_artifacts c ! j),
                              out_pipeline_layout := pipeline_layout (cache_artifacts c ! j),
                              out_pipeline := pipeline (cache_artifacts c ! j),
                              out_descriptor_update_template :=
                                descriptor_update_template (cache_artifacts c ! j),
                              out_shader_info := shader_info (cache_artifacts c ! j) \<rparr>"
      using first unfolding get_pipeline_hit [OF Some j, of ext vkdev out log] by auto
    then show ?thesis
      using get_pipeline_hit [OF Some j, of ext vkdev out2 log2] by simp
  next
    case None
    then have miss: "?key \<notin> set (cache_digests c)"
      by (simp add: find_cache_None)
    obtain ret sm si l1 where csm:
      "create_shader_module ext vkdev index opt lx ly lz 0 (out_shader_info out) log
         = (ret, sm, si, l1)"
      by (metis prod_cases4)
    obtain ret2 o2 l2 where np:
      "new_pipeline vkdev sm si specializations (out\<lparr> out_shader_info := si \<rparr>) l1
         = (ret2, o2, l2)"
      by (metis prod_cases3)
    have built: "out1 = o2\<lparr> out_shader_module := sm \<rparr>
        \<and> c1 = c\<lparr> cache_digests := cache_digests c @ [?key],
                  cache_artifacts := cache_artifacts c @ [bundle_of out1] \<rparr>"
      using first get_pipeline_miss [OF miss csm np] by (auto split: if_splits)
    have found: "find_cache (cache_digests c1) ?key 0 = Some (length (cache_digests c))"
      using built find_cache_appended [OF miss, of 0] by simp
    have at: "length (cache_digests c) < length (cache_artifacts c1)
        \<and> cache_artifacts c1 ! length (cache_digests c) = bundle_of out1"
      using built assms by (simp add: same_length_def nth_append)
    show ?thesis
      using get_pipeline_hit [OF found, of ext vkdev out2 log2] at
      by (simp add: bundle_of_def)
  qed
qed

lemma scenario_first_request:
  "get_pipeline table_build (failing_after capable_gpu 9) 3 scenario_opt [] 8 8 1
     cleared_out empty_cache [] = Some (0, scenario_out, scenario_cache, scenario_calls)"
proof -
  have none: "find_cache (cache_digests empty_cache)
      (pipeline_cache_digest_init 3 scenario_opt [] 8 8 1) 0 = None"
    by (simp add: empty_cache_def)
  have module: "create_shader_module table_build (failing_after capable_gpu 9) 3 scenario_opt
      8 8 1 0 (out_shader_info cleared_out) [] =
      (0, 1, table_shader_info 12, [Create ShaderModule (Created 1)])"
    by (simp add: create_shader_module_def fixture_defs)
  show ?thesis
    unfolding get_pipeline_def Let_def module none
    by (simp add: new_pipeline_def table_shader_info_def capable_gpu_def failing_after_def
        answer_def cleared_out_def empty_cache_def scenario_out_def scenario_cache_def
        scenario_calls_def)
qed

text \<open>
  The request for kernel 4 finds the second bundle of the store of two; the scenario,
  repeated on the store it left, returns the same five handles and makes no call.
\<close>

theorem get_pipeline_cache_hit_witness:
  "same_length stored_cache
   \<and> get_pipeline table_build (failing_after capable_gpu 0) 4 scenario_opt [] 8 8 1
        cleared_out stored_cache [] =
       Some (0, \<lparr> out_shader_module = 21, out_descriptorset_layout = 0,
                   out_pipeline_layout = 23, out_pipeline = 24,
                   out_descriptor_update_template = 0,
                   out_shader_info = table_shader_info 13 \<rparr>, stored_cache, [])
   \<and> same_length empty_cache
   \<and> get_pipeline table_build (failing_after capable_gpu 9) 3 scenario_opt [] 8 8 1
        cleared_out empty_cache [] = Some (0, scenario_out, scenario_cache, scenario_calls)
   \<and> get_pipeline table_build (failing_after capable_gpu 9) 3 scenario_opt [] 8 8 1
        cleared_out scenario_cache scenario_calls
        = Some (0, scenario_out, scenario_cache, scenario_calls)"
proof -
  let ?key = "pipeline_cache_digest_init 4 scenario_opt [] 8 8 1"
  have stored: "same_length stored_cache"
    by (simp add: same_length_def stored_cache_def)
  have empty: "same_length empty_cache"
    by (simp add: same_length_def empty_cache_def)
  have at: "1 < length (cache_digests stored_cache) \<and> cache_digests stored_cache ! 1 = ?key"
    by (simp add: stored_cache_def)
  have other: "cache_digests stored_cache ! 0 \<noteq> ?key"
    by (simp add: stored_cache_def pipeline_cache_digest_init_def)
  obtain j where j: "j \<le> 1" "cache_digests stored_cache ! j = ?key"
    and hit: "get_pipeline table_build (failing_after capable_gpu 0) 4 scenario_opt [] 8 8 1
        cleared_out stored_cache [] =
      Some (0, cleared_out\<lparr> out_shader_module := shader_module (cache_artifacts stored_cache ! j),
               out_descriptorset_layout := descriptorset_layout (cache_artifacts stored_cache ! j),
               out_pipeline_layout := pipeline_layout (cache_artifacts stored_cache ! j),
               out_pipeline := pipeline (cache_artifacts stored_cache ! j),
               out_descriptor_update_template :=
                 descriptor_update_template (cache_artifacts stored_cache ! j),
               out_shader_info := shader_info (cache_artifacts stored_cache ! j) \<rparr>,
            stored_cache, [])"
    using get_pipeline_cache_hit [OF stored, of 1 4 scenario_opt "[]" 8 8 1] at by blast
  have "j = 1"
    using j other by (cases "j = 0") auto
  then have second: "get_pipeline table_build (failing_after capable_gpu 0) 4 scenario_opt [] 8 8 1
        cleared_out stored_cache [] =
       Some (0, \<lparr> out_shader_module = 21, out_descriptorset_layout = 0,
                   out_pipeline_layout = 23, out_pipeline = 24,
                   out_descriptor_update_template = 0,
                   out_shader_info = table_shader_info 13 \<rparr>, stored_cache, [])"
    using hit by (simp add: stored_cache_def cleared_out_def)
  have again: "get_pipeline table_build (failing_after capable_gpu 9) 3 scenario_opt [] 8 8 1
        cleared_out scenario_cache scenario_calls
        = Some (0, scenario_out, scenario_cache, scenario_calls)"
    using get_pipeline_cache_hit [OF empty] scenario_first_request by blast
  show ?thesis
    using stored second empty scenario_first_request again by blast
qed

section \<open>The request from bytecode\<close>

text \<open>
  With the right number of specialization values the first call of \<open>new_pipeline\<close> is the
  create of the descriptor-set layout.
\<close>

lemma new_pipeline_attempt:
  assumes "int (length specializations) = specialization_count si"
  shows "\<exists>rest. snd (snd (new_pipeline vkdev sm si specializations out log)) =
           log @ Create DescriptorSetLayout
                   (vkdev_create_descriptorset_layout vkdev log (binding_count si) (binding_types si))
                 # rest"
  using assms
  by (simp add: new_pipeline_def Let_def handle_of_written ret_of_Failed
      new_pipeline_ERROR_calls)

text \<open>When every create succeeds, \<open>new_pipeline\<close> succeeds, with these calls and handles.\<close>

lemma new_pipeline_all_succeed:
  assumes "int (length specializations) = specialization_count si"
    and "r1 = vkdev_create_descriptorset_layout vkdev log (binding_count si) (binding_types si)"
    and "r2 = vkdev_create_pipeline_layout vkdev (log @ [Create DescriptorSetLayout r1])
                (push_constant_count si) (handle_of r1)"
    and "r3 = vkdev_create_pipeline vkdev
                (log @ [Create DescriptorSetLayout r1, Create PipelineLayout r2])
                sm (handle_of r2) specializations"
    and "r4 = vkdev_create_descriptor_update_template vkdev
                (log @ [Create DescriptorSetLayout r1, Create PipelineLayout r2, Create Pipeline r3])
                (binding_count si) (binding_types si) (handle_of r1) (handle_of r2)"
    and "r1 \<noteq> Failed" "r2 \<noteq> Failed" "r3 \<noteq> Failed"
    and "support_VK_KHR_descriptor_update_template (info vkdev) \<longrightarrow> r4 \<noteq> Failed"
  shows "new_pipeline vkdev sm si specializations out log =
           (0,
            out\<lparr> out_descriptorset_layout := handle_of r1, out_pipeline_layout := handle_of r2,
                  out_pipeline := handle_of r3,
                  out_descriptor_update_template :=
                    (if support_VK_KHR_descriptor_update_template (info vkdev)
                     then handle_of r4 else 0) \<rparr>,
            log @ [Create DescriptorSetLayout r1, Create PipelineLayout r2, Create Pipeline r3]
                @ (if support_VK_KHR_descriptor_update_template (info vkdev)
                   then [Create DescriptorUpdateTemplate r4] else []))"
  using assms
  by (simp add: new_pipeline_def Let_def handle_of_written ret_of_Failed)

text \<open>
  \<open>get_pipeline_spv\<close> in terms of its three steps: the signature, the module and
  \<open>new_pipeline\<close>.
\<close>

lemma get_pipeline_spv_steps:
  assumes "resolve_shader_info ext spv_data (out_shader_info out) = (rs, si)"
    and "r = vkdev_compile_shader_module vkdev log spv_data lx ly lz"
    and "new_pipeline vkdev (handle_of r) si specializations (out\<lparr> out_shader_info := si \<rparr>)
           (log @ [Create ShaderModule r]) = (ret2, out2, log2)"
  shows "get_pipeline_spv ext vkdev spv_data specializations lx ly lz out c log =
           (if rs \<noteq> 0 then (-1, out\<lparr> out_shader_info := si \<rparr>, c, log)
            else if handle_of r = 0
              then (-1, out\<lparr> out_shader_info := si \<rparr>, c, log @ [Create ShaderModule r])
            else if ret2 \<noteq> 0
              then (-1, out2, c, log2 @ [Destroy ShaderModule (handle_of r)])
            else (0, out2\<lparr> out_shader_module := handle_of r \<rparr>, c, log2))"
  using assms by (simp add: get_pipeline_spv_def Let_def)

lemma new_pipeline_extends:
  assumes "new_pipeline vkdev sm si specializations out log = (ret, out', log')"
  shows "\<exists>calls. log' = log @ calls"
proof (cases "ret = 0")
  case True
  then show ?thesis
    using assms new_pipeline_success by blast
next
  case False
  then show ?thesis
    using new_pipeline_failure [OF assms] by blast
qed

text \<open>
  C8. \<open>get_pipeline_spv\<close> returns the store it was given, and what else it returns and the
  calls it makes are the same for every store. It always resolves the signature into the
  variable of the caller. If that fails it returns \<open>-1\<close> and makes no call. Otherwise its
  first call compiles the module, whatever the store holds; if the module is null it returns
  \<open>-1\<close> after that one call. Otherwise it always runs \<open>new_pipeline\<close> on the fresh module:
  with the right number of specialization values its second call is the create of the
  descriptor-set layout; it returns \<open>0\<close> exactly when \<open>new_pipeline\<close> does, with the handles
  \<open>new_pipeline\<close> wrote and the module, and \<open>-1\<close> after destroying the module when it does
  not. When all creates succeed it returns \<open>0\<close>, its calls are exactly these creates, and the
  handles it hands out are the ones they made. Whenever it returns \<open>0\<close> the module and the
  pipeline were created by calls of this request and nothing was destroyed.
\<close>

theorem get_pipeline_spv_bypasses_store:
  "(let rs = resolve_shader_info ext spv_data (out_shader_info out);
        si = snd rs;
        r = vkdev_compile_shader_module vkdev log spv_data lx ly lz;
        out1 = out\<lparr> out_shader_info := si \<rparr>;
        log1 = log @ [Create ShaderModule r];
        np = new_pipeline vkdev (handle_of r) si specializations out1 log1;
        r1 = vkdev_create_descriptorset_layout vkdev log1 (binding_count si) (binding_types si);
        r2 = vkdev_create_pipeline_layout vkdev (log1 @ [Create DescriptorSetLayout r1])
               (push_constant_count si) (handle_of r1);
        r3 = vkdev_create_pipeline vkdev
               (log1 @ [Create DescriptorSetLayout r1, Create PipelineLayout r2])
               (handle_of r) (handle_of r2) specializations;
        r4 = vkdev_create_descriptor_update_template vkdev
               (log1 @ [Create DescriptorSetLayout r1, Create PipelineLayout r2, Create Pipeline r3])
               (binding_count si) (binding_types si) (handle_of r1) (handle_of r2);
        templates = support_VK_KHR_descriptor_update_template (info vkdev)
    in \<exists>ret out' calls.
      (\<forall>c. get_pipeline_spv ext vkdev spv_data specializations lx ly lz out c log
              = (ret, out', c, log @ calls))
    \<and> out_shader_info out' = snd (resolve_shader_info ext spv_data (out_shader_info out))
    \<and> (fst (resolve_shader_info ext spv_data (out_shader_info out)) = 0 \<longrightarrow>
         take 1 calls = [Create ShaderModule (vkdev_compile_shader_module vkdev log spv_data lx ly lz)])
    \<and> (ret = 0 \<longrightarrow>
         out_shader_module out' \<noteq> 0
       \<and> Create ShaderModule (Created (out_shader_module out')) \<in> set calls
       \<and> Create Pipeline (Created (out_pipeline out')) \<in> set calls
       \<and> destroyed_handles calls = [])
    \<and> (fst rs \<noteq> 0 \<longrightarrow> ret = -1 \<and> out' = out1 \<and> calls = [])
    \<and> (fst rs = 0 \<and> handle_of r = 0 \<longrightarrow>
         ret = -1 \<and> out' = out1 \<and> calls = [Create ShaderModule r])
    \<and> (fst rs = 0 \<and> handle_of r \<noteq> 0 \<and> fst np = 0 \<longrightarrow>
         ret = 0 \<and> out' = (fst (snd np))\<lparr> out_shader_module := handle_of r \<rparr>
       \<and> log @ calls = snd (snd np))
    \<and> (fst rs = 0 \<and> handle_of r \<noteq> 0 \<and> fst np \<noteq> 0 \<longrightarrow>
         ret = -1 \<and> out' = out1
       \<and> log @ calls = snd (snd np) @ [Destroy ShaderModule (handle_of r)])
    \<and> (fst rs = 0 \<and> handle_of r \<noteq> 0
         \<and> int (length specializations) = specialization_count si \<longrightarrow>
         take 2 calls = [Create ShaderModule r, Create DescriptorSetLayout r1])
    \<and> (fst rs = 0 \<and> handle_of r \<noteq> 0
         \<and> int (length specializations) = specialization_count si
         \<and> r1 \<noteq> Failed \<and> r2 \<noteq> Failed \<and> r3 \<noteq> Failed \<and> (templates \<longrightarrow> r4 \<noteq> Failed) \<longrightarrow>
         ret = 0
       \<and> calls = [Create ShaderModule r, Create DescriptorSetLayout r1, Create PipelineLayout r2,
                   Create Pipeline r3]
                  @ (if templates then [Create DescriptorUpdateTemplate r4] else [])
       \<and> out' = out\<lparr> out_shader_module := handle_of r,
                        out_descriptorset_layout := handle_of r1,
                        out_pipeline_layout := handle_of r2,
                        out_pipeline := handle_of r3,
                        out_descriptor_update_template := (if templates then handle_of r4 else 0),
                        out_shader_info := si \<rparr>))"
proof -
  obtain rs si where rs: "resolve_shader_info ext spv_data (out_shader_info out) = (rs, si)"
    by (cases "resolve_shader_info ext spv_data (out_shader_info out)")
  define r where "r = vkdev_compile_shader_module vkdev log spv_data lx ly lz"
  define out1 where "out1 = out\<lparr> out_shader_info := si \<rparr>"
  define log1 where "log1 = log @ [Create ShaderModule r]"
  define r1 where "r1 = vkdev_create_descriptorset_layout vkdev log1 (binding_count si) (binding_types si)"
  define r2 where "r2 = vkdev_create_pipeline_layout vkdev (log1 @ [Create DescriptorSetLayout r1])
               (push_constant_count si) (handle_of r1)"
  define r3 where "r3 = vkdev_create_pipeline vkdev
               (log1 @ [Create DescriptorSetLayout r1, Create PipelineLayout r2])
               (handle_of r) (handle_of r2) specializations"
  define r4 where "r4 = vkdev_create_descriptor_update_template vkdev
               (log1 @ [Create DescriptorSetLayout r1, Create PipelineLayout r2, Create Pipeline r3])
               (binding_count si) (binding_types si) (handle_of r1) (handle_of r2)"
  define templates where "templates = support_VK_KHR_descriptor_update_template (info vkdev)"
  obtain ret2 out2 log2 where np:
    "new_pipeline vkdev (handle_of r) si specializations out1 log1 = (ret2, out2, log2)"
    by (metis prod_cases3)
  obtain calls2 where calls2: "log2 = log1 @ calls2"
    using new_pipeline_extends [OF np] by blast
  define fails where "fails \<longleftrightarrow> rs \<noteq> 0 \<or> handle_of r = 0 \<or> ret2 \<noteq> 0"
  define ret :: int where "ret = (if fails then -1 else 0)"
  define out' where "out' = (if fails then out1 else out2\<lparr> out_shader_module := handle_of r \<rparr>)"
  define calls where "calls =
    (if rs \<noteq> 0 then []
     else if handle_of r = 0 then [Create ShaderModule r]
     else if ret2 \<noteq> 0 then Create ShaderModule r # calls2 @ [Destroy ShaderModule (handle_of r)]
     else Create ShaderModule r # calls2)"
  note defs = fails_def ret_def out'_def calls_def
  have created: "handle_of r \<noteq> 0 \<Longrightarrow> r = Created (handle_of r)"
    by (cases r) simp_all
  have failed: "out2 = out1" if "ret2 \<noteq> 0"
    using new_pipeline_failure [OF np that] by simp
  have succeeded: "out_shader_info out2 = si
      \<and> Create Pipeline (Created (out_pipeline out2)) \<in> set calls2
      \<and> destroyed_handles calls2 = []" if "ret2 = 0"
  proof -
    have "new_pipeline vkdev (handle_of r) si specializations out1 log1 = (0, out2, log2)"
      using np that by simp
    from new_pipeline_success [OF this] show ?thesis
      using calls2 by (auto simp add: out1_def)
  qed
  have run: "\<forall>c. get_pipeline_spv ext vkdev spv_data specializations lx ly lz out c log
              = (ret, out', c, log @ calls)"
    using get_pipeline_spv_steps [OF rs r_def np [unfolded out1_def log1_def]] failed calls2
    by (simp add: defs out1_def log1_def)
  have info: "out_shader_info out' = si"
    using succeeded by (simp add: defs out1_def)
  have first: "rs = 0 \<longrightarrow> take 1 calls = [Create ShaderModule r]"
    by (simp add: defs)
  have fresh: "ret = 0 \<longrightarrow>
         out_shader_module out' \<noteq> 0
       \<and> Create ShaderModule (Created (out_shader_module out')) \<in> set calls
       \<and> Create Pipeline (Created (out_pipeline out')) \<in> set calls
       \<and> destroyed_handles calls = []"
    using succeeded created by (auto simp add: defs)
  have unresolved: "rs \<noteq> 0 \<longrightarrow> ret = -1 \<and> out' = out1 \<and> calls = []"
    by (simp add: defs)
  have no_module: "rs = 0 \<and> handle_of r = 0 \<longrightarrow>
         ret = -1 \<and> out' = out1 \<and> calls = [Create ShaderModule r]"
    by (simp add: defs)
  have built: "rs = 0 \<and> handle_of r \<noteq> 0 \<and> ret2 = 0 \<longrightarrow>
         ret = 0 \<and> out' = out2\<lparr> out_shader_module := handle_of r \<rparr> \<and> log @ calls = log2"
    using calls2 by (simp add: defs log1_def)
  have unbuilt: "rs = 0 \<and> handle_of r \<noteq> 0 \<and> ret2 \<noteq> 0 \<longrightarrow>
         ret = -1 \<and> out' = out1
       \<and> log @ calls = log2 @ [Destroy ShaderModule (handle_of r)]"
    using calls2 by (simp add: defs log1_def)
  have attempt: "rs = 0 \<and> handle_of r \<noteq> 0
         \<and> int (length specializations) = specialization_count si \<longrightarrow>
         take 2 calls = [Create ShaderModule r, Create DescriptorSetLayout r1]"
  proof
    assume a: "rs = 0 \<and> handle_of r \<noteq> 0
         \<and> int (length specializations) = specialization_count si"
    then obtain rest where "log2 = log1 @ Create DescriptorSetLayout r1 # rest"
      using new_pipeline_attempt [of specializations si vkdev "handle_of r" out1 log1] np
      by (auto simp add: r1_def)
    then have "calls2 = Create DescriptorSetLayout r1 # rest"
      using calls2 by simp
    then show "take 2 calls = [Create ShaderModule r, Create DescriptorSetLayout r1]"
      using a by (simp add: defs)
  qed
  have all: "rs = 0 \<and> handle_of r \<noteq> 0
         \<and> int (length specializations) = specialization_count si
         \<and> r1 \<noteq> Failed \<and> r2 \<noteq> Failed \<and> r3 \<noteq> Failed \<and> (templates \<longrightarrow> r4 \<noteq> Failed) \<longrightarrow>
         ret = 0
       \<and> calls = [Create ShaderModule r, Create DescriptorSetLayout r1, Create PipelineLayout r2,
                   Create Pipeline r3]
                  @ (if templates then [Create DescriptorUpdateTemplate r4] else [])
       \<and> out' = out\<lparr> out_shader_module := handle_of r,
                        out_descriptorset_layout := handle_of r1,
                        out_pipeline_layout := handle_of r2,
                        out_pipeline := handle_of r3,
                        out_descriptor_update_template := (if templates then handle_of r4 else 0),
                        out_shader_info := si \<rparr>"
  proof
    assume a: "rs = 0 \<and> handle_of r \<noteq> 0
         \<and> int (length specializations) = specialization_count si
         \<and> r1 \<noteq> Failed \<and> r2 \<noteq> Failed \<and> r3 \<noteq> Failed \<and> (templates \<longrightarrow> r4 \<noteq> Failed)"
    have "(ret2, out2, log2) =
           (0,
            out1\<lparr> out_descriptorset_layout := handle_of r1, out_pipeline_layout := handle_of r2,
                  out_pipeline := handle_of r3,
                  out_descriptor_update_template := (if templates then handle_of r4 else 0) \<rparr>,
            log1 @ [Create DescriptorSetLayout r1, Create PipelineLayout r2, Create Pipeline r3]
                @ (if templates then [Create DescriptorUpdateTemplate r4] else []))"
      unfolding np [symmetric] templates_def
      by (rule new_pipeline_all_succeed [OF _ r1_def r2_def r3_def r4_def])
        (use a in \<open>simp_all add: templates_def\<close>)
    then show "ret = 0
       \<and> calls = [Create ShaderModule r, Create DescriptorSetLayout r1, Create PipelineLayout r2,
                   Create Pipeline r3]
                  @ (if templates then [Create DescriptorUpdateTemplate r4] else [])
       \<and> out' = out\<lparr> out_shader_module := handle_of r,
                        out_descriptorset_layout := handle_of r1,
                        out_pipeline_layout := handle_of r2,
                        out_pipeline := handle_of r3,
                        out_descriptor_update_template := (if templates then handle_of r4 else 0),
                        out_shader_info := si \<rparr>"
      using a calls2 by (auto simp add: defs out1_def)
  qed
  have "\<exists>ret out' calls.
      (\<forall>c. get_pipeline_spv ext vkdev spv_data specializations lx ly lz out c log
              = (ret, out', c, log @ calls))
    \<and> out_shader_info out' = si
    \<and> (rs = 0 \<longrightarrow> take 1 calls = [Create ShaderModule r])
    \<and> (ret = 0 \<longrightarrow>
         out_shader_module out' \<noteq> 0
       \<and> Create ShaderModule (Created (out_shader_module out')) \<in> set calls
       \<and> Create Pipeline (Created (out_pipeline out')) \<in> set calls
       \<and> destroyed_handles calls = [])
    \<and> (rs \<noteq> 0 \<longrightarrow> ret = -1 \<and> out' = out1 \<and> calls = [])
    \<and> (rs = 0 \<and> handle_of r = 0 \<longrightarrow>
         ret = -1 \<and> out' = out1 \<and> calls = [Create ShaderModule r])
    \<and> (rs = 0 \<and> handle_of r \<noteq> 0 \<and> ret2 = 0 \<longrightarrow>
         ret = 0 \<and> out' = out2\<lparr> out_shader_module := handle_of r \<rparr> \<and> log @ calls = log2)
    \<and> (rs = 0 \<and> handle_of r \<noteq> 0 \<and> ret2 \<noteq> 0 \<longrightarrow>
         ret = -1 \<and> out' = out1
       \<and> log @ calls = log2 @ [Destroy ShaderModule (handle_of r)])
    \<and> (rs = 0 \<and> handle_of r \<noteq> 0
         \<and> int (length specializations) = specialization_count si \<longrightarrow>
         take 2 calls = [Create ShaderModule r, Create DescriptorSetLayout r1])
    \<and> (rs = 0 \<and> handle_of r \<noteq> 0
         \<and> int (length specializations) = specialization_count si
         \<and> r1 \<noteq> Failed \<and> r2 \<noteq> Failed \<and> r3 \<noteq> Failed \<and> (templates \<longrightarrow> r4 \<noteq> Failed) \<longrightarrow>
         ret = 0
       \<and> calls = [Create ShaderModule r, Create DescriptorSetLayout r1, Create PipelineLayout r2,
                   Create Pipeline r3]
                  @ (if templates then [Create DescriptorUpdateTemplate r4] else [])
       \<and> out' = out\<lparr> out_shader_module := handle_of r,
                        out_descriptorset_layout := handle_of r1,
                        out_pipeline_layout := handle_of r2,
                        out_pipeline := handle_of r3,
                        out_descriptor_update_template := (if templates then handle_of r4 else 0),
                        out_shader_info := si \<rparr>)"
    apply (rule exI [of _ ret], rule exI [of _ out'], rule exI [of _ calls])
    apply (intro conjI)
             apply (rule run)
            apply (rule info)
           apply (rule first)
          apply (rule fresh)
         apply (rule unresolved)
        apply (rule no_module)
       apply (rule built)
      apply (rule unbuilt)
     apply (rule attempt)
    apply (rule all)
    done
  then show ?thesis
    unfolding Let_def rs fst_conv snd_conv
    unfolding r_def [symmetric] out1_def [symmetric] log1_def [symmetric]
    unfolding np fst_conv snd_conv
    unfolding r1_def [symmetric]
    unfolding r2_def [symmetric]
    unfolding r3_def [symmetric]
    unfolding r4_def [symmetric] templates_def [symmetric]
    by (simp only: r_def)
qed

text \<open>
  Bytecode of one word on a device whose creates succeed: the request returns \<open>0\<close> and the
  same fresh handles on the store of two bundles and on the store of the scenario, and both
  stores unchanged. On a device that fails at its third call, the pipeline layout, it
  returns \<open>-1\<close> after destroying the descriptor-set layout and the module.
\<close>

theorem get_pipeline_spv_bypasses_store_witness:
  "get_pipeline_spv table_build (failing_after capable_gpu 9) [1] [] 8 8 1
     cleared_out stored_cache [] =
       (0, scenario_out\<lparr> out_shader_info := table_shader_info 0 \<rparr>, stored_cache, scenario_calls)
   \<and> get_pipeline_spv table_build (failing_after capable_gpu 9) [1] [] 8 8 1
     cleared_out scenario_cache [] =
       (0, scenario_out\<lparr> out_shader_info := table_shader_info 0 \<rparr>, scenario_cache, scenario_calls)
   \<and> get_pipeline_spv table_build (failing_after capable_gpu 2) [1] [] 8 8 1
     cleared_out scenario_cache [] =
       (-1, cleared_out, scenario_cache,
        [ Create ShaderModule (Created 1), Create DescriptorSetLayout (Created 2),
          Create PipelineLayout Failed, Destroy DescriptorSetLayout 2, Destroy ShaderModule 1 ])"
proof -
  note eval = table_build_def table_shader_info_def capable_gpu_def failing_after_def
    answer_def cleared_out_def scenario_out_def scenario_calls_def
  obtain ret out' calls where any:
      "\<forall>c. get_pipeline_spv table_build (failing_after capable_gpu 9) [1] [] 8 8 1 cleared_out c []
           = (ret, out', c, [] @ calls)"
    and result: "ret = 0 \<and> calls = scenario_calls
        \<and> out' = scenario_out\<lparr> out_shader_info := table_shader_info 0 \<rparr>"
    using get_pipeline_spv_bypasses_store [where ext = table_build
        and vkdev = "failing_after capable_gpu 9" and spv_data = "[1]" and specializations = "[]"
        and lx = 8 and ly = 8 and lz = 1 and out = cleared_out and log = "[]", unfolded Let_def]
    by (auto simp add: eval new_pipeline_def new_pipeline_ERROR_def)
  obtain ret3 out3 calls3 where any3:
      "\<forall>c. get_pipeline_spv table_build (failing_after capable_gpu 2) [1] [] 8 8 1 cleared_out c []
           = (ret3, out3, c, [] @ calls3)"
    and failure: "ret3 = -1 \<and> out3 = cleared_out
        \<and> [] @ calls3 =
            [ Create ShaderModule (Created 1), Create DescriptorSetLayout (Created 2),
              Create PipelineLayout Failed, Destroy DescriptorSetLayout 2, Destroy ShaderModule 1 ]"
    using get_pipeline_spv_bypasses_store [where ext = table_build
        and vkdev = "failing_after capable_gpu 2" and spv_data = "[1]" and specializations = "[]"
        and lx = 8 and ly = 8 and lz = 1 and out = cleared_out and log = "[]", unfolded Let_def]
    by (auto simp add: eval new_pipeline_def new_pipeline_ERROR_def)
  show ?thesis
    using any [rule_format, of stored_cache] any [rule_format, of scenario_cache]
      any3 [rule_format, of scenario_cache] result failure
    by simp
qed

section \<open>The store\<close>

text \<open>
  C9. From a store whose two vectors have the same length, the keyed \<open>get_pipeline\<close> returns
  (it reads no vector out of range) and leaves either the store as it was or, when it
  returns \<open>0\<close>, the store with the key of the request appended to the digests and the bundle
  it hands out appended to the bundles; \<open>get_pipeline_spv\<close> leaves the store as it was;
  \<open>clear\<close> leaves both vectors empty. In each case the vectors have the same length
  afterwards, and no entry that was there has changed.
\<close>

theorem store_same_length:
  assumes "same_length c"
  shows "(\<exists>ret out' c' log'.
            get_pipeline ext vkdev index opt specializations lx ly lz out c log
              = Some (ret, out', c', log')
          \<and> same_length c'
          \<and> (c' = c
              \<or> ret = 0
                \<and> c' = c\<lparr> cache_digests := cache_digests c
                             @ [pipeline_cache_digest_init index opt specializations lx ly lz],
                           cache_artifacts := cache_artifacts c @ [bundle_of out'] \<rparr>))
       \<and> fst (snd (snd (get_pipeline_spv ext vkdev spv_data specializations lx ly lz out c log))) = c
       \<and> fst (clear vkdev c log) = c\<lparr> cache_digests := [], cache_artifacts := [] \<rparr>
       \<and> same_length (fst (clear vkdev c log))"
proof (intro conjI)
  let ?key = "pipeline_cache_digest_init index opt specializations lx ly lz"
  show "\<exists>ret out' c' log'.
            get_pipeline ext vkdev index opt specializations lx ly lz out c log
              = Some (ret, out', c', log')
          \<and> same_length c'
          \<and> (c' = c
              \<or> ret = 0
                \<and> c' = c\<lparr> cache_digests := cache_digests c @ [?key],
                           cache_artifacts := cache_artifacts c @ [bundle_of out'] \<rparr>)"
  proof (cases "find_cache (cache_digests c) ?key 0")
    case (Some j)
    then have "j < length (cache_artifacts c)"
      using find_cache_Some [OF Some] assms by (auto simp add: same_length_def)
    then show ?thesis
      using get_pipeline_hit [OF Some, of ext vkdev out log] assms by simp
  next
    case None
    then have miss: "?key \<notin> set (cache_digests c)"
      by (simp add: find_cache_None)
    obtain ret sm si l1 where csm:
      "create_shader_module ext vkdev index opt lx ly lz 0 (out_shader_info out) log
         = (ret, sm, si, l1)"
      by (metis prod_cases4)
    obtain ret2 o2 l2 where np:
      "new_pipeline vkdev sm si specializations (out\<lparr> out_shader_info := si \<rparr>) l1
         = (ret2, o2, l2)"
      by (metis prod_cases3)
    show ?thesis
      using get_pipeline_miss [OF miss csm np] assms by (simp add: same_length_def)
  qed
next
  show "fst (snd (snd (get_pipeline_spv ext vkdev spv_data specializations lx ly lz out c log))) = c"
    by (simp add: get_pipeline_spv_def Let_def split: prod.splits)
next
  show "fst (clear vkdev c log) = c\<lparr> cache_digests := [], cache_artifacts := [] \<rparr>"
    by (simp add: clear_def)
next
  show "same_length (fst (clear vkdev c log))"
    by (simp add: clear_def same_length_def)
qed

text \<open>
  The scenario on the empty store appends one pair; the store of two bundles is emptied by
  \<open>clear\<close>.
\<close>

theorem store_same_length_witness:
  "same_length empty_cache
   \<and> get_pipeline table_build (failing_after capable_gpu 9) 3 scenario_opt [] 8 8 1
        cleared_out empty_cache [] = Some (0, scenario_out, scenario_cache, scenario_calls)
   \<and> scenario_cache =
        empty_cache\<lparr> cache_digests := cache_digests empty_cache
                         @ [pipeline_cache_digest_init 3 scenario_opt [] 8 8 1],
                     cache_artifacts := cache_artifacts empty_cache @ [bundle_of scenario_out] \<rparr>
   \<and> same_length scenario_cache
   \<and> same_length stored_cache
   \<and> fst (clear (failing_after capable_gpu 9) stored_cache []) = empty_cache"
proof -
  have empty: "same_length empty_cache"
    by (simp add: same_length_def empty_cache_def)
  have stored: "same_length stored_cache"
    by (simp add: same_length_def stored_cache_def)
  have grown: "scenario_cache \<noteq> empty_cache"
    by (simp add: scenario_cache_def empty_cache_def)
  note first = store_same_length [OF empty, of table_build "failing_after capable_gpu 9"
      3 scenario_opt "[]" 8 8 1 cleared_out "[]"]
  have "same_length scenario_cache
      \<and> scenario_cache =
        empty_cache\<lparr> cache_digests := cache_digests empty_cache
                         @ [pipeline_cache_digest_init 3 scenario_opt [] 8 8 1],
                     cache_artifacts := cache_artifacts empty_cache @ [bundle_of scenario_out] \<rparr>"
    using first grown unfolding scenario_first_request by auto
  moreover have "fst (clear (failing_after capable_gpu 9) stored_cache []) = empty_cache"
    using store_same_length [OF stored, of _ "failing_after capable_gpu 9"]
    by (simp add: stored_cache_def empty_cache_def)
  ultimately show ?thesis
    using empty stored scenario_first_request by blast
qed

text \<open>
  The second invariant: on a device without descriptor update templates no stored bundle has
  one. It holds of the empty store and every operation keeps it.
\<close>

lemma templates_supported_kept:
  assumes "templates_supported vkdev c"
  shows "templates_supported vkdev empty_cache"
    and "get_pipeline ext vkdev index opt specializations lx ly lz out c log
           = Some (ret, out', c', log') \<Longrightarrow> templates_supported vkdev c'"
    and "templates_supported vkdev
           (fst (snd (snd (get_pipeline_spv ext vkdev spv_data specializations lx ly lz out c log))))"
    and "templates_supported vkdev (fst (clear vkdev c log))"
proof -
  let ?key = "pipeline_cache_digest_init index opt specializations lx ly lz"
  show "templates_supported vkdev empty_cache"
    by (simp add: templates_supported_def empty_cache_def)
  show "templates_supported vkdev
           (fst (snd (snd (get_pipeline_spv ext vkdev spv_data specializations lx ly lz out c log))))"
    using assms by (simp add: get_pipeline_spv_def Let_def split: prod.splits)
  show "templates_supported vkdev (fst (clear vkdev c log))"
    by (simp add: clear_def templates_supported_def)
  assume run: "get_pipeline ext vkdev index opt specializations lx ly lz out c log
           = Some (ret, out', c', log')"
  show "templates_supported vkdev c'"
  proof (cases "find_cache (cache_digests c) ?key 0")
    case (Some j)
    then have "c' = c"
      using run by (simp add: get_pipeline_def Let_def split: if_splits)
    then show ?thesis
      using assms by simp
  next
    case None
    then have miss: "?key \<notin> set (cache_digests c)"
      by (simp add: find_cache_None)
    obtain r sm si l1 where csm:
      "create_shader_module ext vkdev index opt lx ly lz 0 (out_shader_info out) log
         = (r, sm, si, l1)"
      by (metis prod_cases4)
    obtain ret2 o2 l2 where np:
      "new_pipeline vkdev sm si specializations (out\<lparr> out_shader_info := si \<rparr>) l1
         = (ret2, o2, l2)"
      by (metis prod_cases3)
    show ?thesis
    proof (cases "r = 0 \<and> ret2 = 0")
      case False
      then have "c' = c"
        using run get_pipeline_miss [OF miss csm np] by (auto split: if_splits)
      then show ?thesis
        using assms by simp
    next
      case True
      then have np0: "new_pipeline vkdev sm si specializations (out\<lparr> out_shader_info := si \<rparr>) l1
         = (0, o2, l2)"
        using np by simp
      obtain dsl pl pipe dut where built:
        "o2 = out\<lparr> out_shader_info := si, out_descriptorset_layout := dsl,
               out_pipeline_layout := pl, out_pipeline := pipe,
               out_descriptor_update_template := dut \<rparr>"
        "support_VK_KHR_descriptor_update_template (info vkdev) \<or> dut = 0"
        using new_pipeline_success [OF np0] by auto
      have "c' = c\<lparr> cache_digests := cache_digests c @ [?key],
                   cache_artifacts := cache_artifacts c
                     @ [bundle_of (o2\<lparr> out_shader_module := sm \<rparr>)] \<rparr>"
        using run True get_pipeline_miss [OF miss csm np] by auto
      then show ?thesis
        using assms built by (auto simp add: templates_supported_def bundle_of_def)
    qed
  qed
qed

text \<open>Every store a cache can be in satisfies both invariants.\<close>

lemma reachable_invariants:
  "reachable ext vkdev c \<Longrightarrow> same_length c \<and> templates_supported vkdev c"
proof (induction rule: reachable.induct)
  case initial
  show ?case
    by (simp add: same_length_def templates_supported_def)
next
  case (keyed c index opt specializations lx ly lz out log ret out' c' log')
  have "same_length c'"
  proof (cases "find_cache (cache_digests c)
      (pipeline_cache_digest_init index opt specializations lx ly lz) 0")
    case (Some j)
    then have "c' = c"
      using keyed.hyps(2) by (simp add: get_pipeline_def Let_def split: if_splits)
    then show ?thesis
      using keyed.IH by simp
  next
    case None
    then have miss: "pipeline_cache_digest_init index opt specializations lx ly lz
        \<notin> set (cache_digests c)"
      by (simp add: find_cache_None)
    obtain r sm si l1 where csm:
      "create_shader_module ext vkdev index opt lx ly lz 0 (out_shader_info out) log
         = (r, sm, si, l1)"
      by (metis prod_cases4)
    obtain ret2 o2 l2 where np:
      "new_pipeline vkdev sm si specializations (out\<lparr> out_shader_info := si \<rparr>) l1
         = (ret2, o2, l2)"
      by (metis prod_cases3)
    show ?thesis
      using keyed.hyps(2) keyed.IH get_pipeline_miss [OF miss csm np]
      by (auto simp add: same_length_def split: if_splits)
  qed
  then show ?case
    using keyed.IH templates_supported_kept(2) [OF _ keyed.hyps(2)] by blast
next
  case (bytecode c spv_data specializations lx ly lz out log ret out' c' log')
  have "c' = c"
    using bytecode.hyps(2) by (simp add: get_pipeline_spv_def Let_def split: prod.splits if_splits)
  then show ?case
    using bytecode.IH by simp
next
  case (cleared c log c' log')
  then show ?case
    by (auto simp add: clear_def same_length_def templates_supported_def)
qed

section \<open>The int8 flags\<close>






end
